theory Spec2Isabelle
  imports Main "HOL-Library.Sublist" "HOL-Library.AList"
begin

section \<open>JavaScript values and strings\<close>

text \<open>
  The engine is JavaScript. Strings are modelled as lists of 8-bit characters;
  \<open>toLowerCase\<close> acts on the ASCII letters and white space is the ASCII white space.
  An optional field is an \<open>option\<close>; the truthiness test \<open>if (x)\<close> on an optional string
  is \<open>present\<close> (absent and the empty string are both falsy), and \<open>x || d\<close> is \<open>orElse\<close>.
  Two methods share the names \<open>getCurrentRoom\<close> and \<open>getItemsInRoom\<close>: those of
  \<open>GameState\<close> are \<open>getCurrentRoomId\<close> and \<open>state_getItemsInRoom\<close> here, those of
  \<open>GameRules\<close> keep their names.
\<close>

text \<open>The values kept in the flag store. The engine itself only ever stores \<open>true\<close>.\<close>

datatype jsval = JBool bool | JNum int | JStr string | JNull

fun truthy :: "jsval \<Rightarrow> bool" where
  "truthy (JBool b) = b"
| "truthy (JNum n) = (n \<noteq> 0)"
| "truthy (JStr s) = (s \<noteq> [])"
| "truthy JNull = False"

subsection \<open>Property lookup on plain objects\<close>

text \<open>
  The exits, locked exits and features of a room, the two synonym tables of the content,
  the flag store, the table of command handlers and the built-in direction table are
  plain objects read as \<open>obj[key]\<close>. Such a lookup finds the own keys of the object
  first (each key once, as \<open>JSON.parse\<close> and assignment leave them) and then the members
  that every plain object inherits from \<open>Object.prototype\<close>; only when both fail is the
  result \<open>undefined\<close>. The inherited members are functions, except \<open>__proto__\<close>, which
  reads as the object \<open>Object.prototype\<close>; all of them are truthy.
\<close>

definition objectPrototypeKeys :: "string list" where
  "objectPrototypeKeys =
     [''constructor'', ''__defineGetter__'', ''__defineSetter__'', ''hasOwnProperty'',
      ''__lookupGetter__'', ''__lookupSetter__'', ''isPrototypeOf'', ''propertyIsEnumerable'',
      ''toString'', ''valueOf'', ''__proto__'', ''toLocaleString'']"

datatype 'a lookup = Own 'a | Inherited string | Undefined

definition getProp :: "(string \<rightharpoonup> 'a) \<Rightarrow> string \<Rightarrow> 'a lookup" where
  "getProp own k =
     (case own k of
        Some v \<Rightarrow> Own v
      | None \<Rightarrow> if k \<in> set objectPrototypeKeys then Inherited k else Undefined)"

text \<open>\<open>obj && obj[key]\<close> for an optional object given by its own keys in order.\<close>

definition lookupP :: "(string \<times> 'v) list option \<Rightarrow> string \<Rightarrow> 'v lookup" where
  "lookupP tbl k = (case tbl of None \<Rightarrow> Undefined | Some al \<Rightarrow> getProp (map_of al) k)"

text \<open>
  A value found where the code expects a string: a string, or the member of
  \<open>Object.prototype\<close> of the given name. \<open>toText\<close> is what a template literal or a
  property key makes of it; the text of a built-in function is the one of V8, and the
  member \<open>constructor\<close> is the function \<open>Object\<close>.
\<close>

datatype jsword = Word string | Member string

definition memberText :: "string \<Rightarrow> string" where
  "memberText k =
     (if k = ''__proto__'' then ''[object Object]''
      else ''function '' @ (if k = ''constructor'' then ''Object'' else k)
           @ ''() { [native code] }'')"

fun toText :: "jsword \<Rightarrow> string" where
  "toText (Word w) = w"
| "toText (Member k) = memberText k"

text \<open>\<open>obj[key] || d\<close> where the own values are strings.\<close>

fun propOr :: "string lookup \<Rightarrow> string \<Rightarrow> jsword" where
  "propOr (Own v) d = (if v = [] then Word d else Word v)"
| "propOr (Inherited k) d = Member k"
| "propOr Undefined d = Word d"

text \<open>The value of \<open>obj[key]\<close> when it is truthy.\<close>

fun truthyProp :: "string lookup \<Rightarrow> jsword option" where
  "truthyProp (Own v) = (if v = [] then None else Some (Word v))"
| "truthyProp (Inherited k) = Some (Member k)"
| "truthyProp Undefined = None"

subsection \<open>Strings\<close>

fun present :: "string option \<Rightarrow> bool" where
  "present None = False"
| "present (Some s) = (s \<noteq> [])"

fun orElse :: "string option \<Rightarrow> string \<Rightarrow> string" where
  "orElse None d = d"
| "orElse (Some s) d = (if s = [] then d else s)"

definition lowerChar :: "char \<Rightarrow> char" where
  "lowerChar c =
     (case map_of (zip ''ABCDEFGHIJKLMNOPQRSTUVWXYZ'' ''abcdefghijklmnopqrstuvwxyz'') c of
        Some d \<Rightarrow> d
      | None \<Rightarrow> c)"

definition toLowerCase :: "string \<Rightarrow> string" where
  "toLowerCase s = map lowerChar s"

fun includesStr :: "string \<Rightarrow> string \<Rightarrow> bool" where
  "includesStr [] t = (t = [])"
| "includesStr (c # s) t = (prefix t (c # s) \<or> includesStr s t)"

fun joinWith :: "string \<Rightarrow> string list \<Rightarrow> string" where
  "joinWith sep [] = []"
| "joinWith sep [x] = x"
| "joinWith sep (x # y # ys) = x @ sep @ joinWith sep (y # ys)"

subsection \<open>Values that are not strings\<close>

text \<open>
  Calling a method that only strings have on a value that is not a string throws a
  \<open>TypeError\<close>. No code of the engine catches it while a command is executed.
\<close>

datatype error = TypeError

text \<open>For a noun or verb \<open>x\<close> of a command: the test \<open>if (x)\<close>, the call
  \<open>x.toLowerCase()\<close>, and \<open>x\<close> inside a template literal.\<close>

fun given :: "jsword option \<Rightarrow> bool" where
  "given None = False"
| "given (Some (Word w)) = (w \<noteq> [])"
| "given (Some (Member k)) = True"

fun lowerOf :: "jsword option \<Rightarrow> error + string" where
  "lowerOf None = Inl TypeError"
| "lowerOf (Some (Word w)) = Inr (toLowerCase w)"
| "lowerOf (Some (Member k)) = Inl TypeError"

fun textOf :: "jsword option \<Rightarrow> string" where
  "textOf None = ''null''"
| "textOf (Some w) = toText w"

section \<open>Content: rooms, items, characters, commands, configuration\<close>

record named =
  ident :: string
  name :: string
  description :: string

record entity = named +
  aliases :: "string list option"

record event =
  ev_message :: "string option"
  ev_setFlag :: "string option"
  ev_giveItem :: "string option"

record useAction =
  ua_target :: "string option"
  ua_message :: "string option"
  ua_setFlag :: "string option"
  ua_giveItem :: "string option"
  ua_consume :: bool

record item = entity +
  shortDescription :: "string option"
  takeable :: "bool option"
  visible :: "bool option"
  takeFailMessage :: "string option"
  onTake :: "event option"
  useActions :: "useAction list option"
  useFailMessage :: "string option"
  stateDescriptions :: "(string \<times> string) list option"

record dialogueNode =
  node_id :: string
  node_text :: string
  node_setFlag :: "string option"
  node_giveItem :: "string option"
  nextNode :: "string option"
  loop :: "string option"

record character = entity +
  defaultGreeting :: "string option"
  dialogue :: "dialogueNode list option"

record lockedInfo =
  requiresItem :: "string option"
  requiresFlag :: "string option"
  lock_message :: "string option"

record room = named +
  exits :: "(string \<times> string) list option"
  lockedExits :: "(string \<times> lockedInfo) list option"
  items :: "string list option"
  characters :: "string list option"
  features :: "(string \<times> string) list option"

record objective =
  obj_flag :: string
  obj_description :: string

record config =
  startingRoom :: string
  title :: string
  introText :: "string option"
  objectives :: "objective list option"
  victoryText :: "string option"

record commands =
  synonyms :: "string \<rightharpoonup> string"
  directions :: "string \<rightharpoonup> string"

record content =
  c_rooms :: "room list"
  c_items :: "item list"
  c_characters :: "character list"
  c_commands :: commands
  c_config :: config

section \<open>GameState.js\<close>

record GameState =
  currentRoomId :: string
  inventory :: "string list"
  flags :: "(string \<times> jsval) list"
  visitedRooms :: "string set"
  commandHistory :: "string list"
  historyIndex :: int
  tempInput :: string
  itemLocations :: "(string \<times> string) list"
  characterDialogueState :: "(string \<times> string) list"

definition newGameState :: "config \<Rightarrow> GameState" where
  "newGameState cfg =
     \<lparr> currentRoomId = startingRoom cfg, inventory = [], flags = [],
       visitedRooms = {}, commandHistory = [], historyIndex = - 1, tempInput = [],
       itemLocations = [], characterDialogueState = [] \<rparr>"

definition getCurrentRoomId :: "GameState \<Rightarrow> string" where
  "getCurrentRoomId s = currentRoomId s"

definition setCurrentRoom :: "string \<Rightarrow> GameState \<Rightarrow> GameState" where
  "setCurrentRoom roomId s = s\<lparr>currentRoomId := roomId\<rparr>"

definition markRoomVisited :: "string \<Rightarrow> GameState \<Rightarrow> GameState" where
  "markRoomVisited roomId s = s\<lparr>visitedRooms := insert roomId (visitedRooms s)\<rparr>"

definition getInventory :: "GameState \<Rightarrow> string list" where
  "getInventory s = inventory s"

definition hasItem :: "GameState \<Rightarrow> string \<Rightarrow> bool" where
  "hasItem s itemId = (itemId \<in> set (inventory s))"

text \<open>\<open>itemLocations\<close> and \<open>characterDialogueState\<close> are JavaScript \<open>Map\<close>s and
  \<open>flags\<close> is an object: writing a key already there keeps its position, a new key goes
  to the end. That is \<open>AList.update\<close>, and reading is \<open>map_of\<close>.\<close>

definition setItemLocation :: "string \<Rightarrow> string \<Rightarrow> GameState \<Rightarrow> GameState" where
  "setItemLocation itemId location s =
     s\<lparr>itemLocations := AList.update itemId location (itemLocations s)\<rparr>"

definition addItem :: "string \<Rightarrow> GameState \<Rightarrow> GameState" where
  "addItem itemId s =
     (if itemId \<notin> set (inventory s)
      then s\<lparr>inventory := inventory s @ [itemId],
             itemLocations := AList.update itemId ''inventory'' (itemLocations s)\<rparr>
      else s)"

definition removeItem :: "string \<Rightarrow> GameState \<Rightarrow> bool \<times> GameState" where
  "removeItem itemId s =
     (if itemId \<in> set (inventory s)
      then (True, s\<lparr>inventory := remove1 itemId (inventory s)\<rparr>)
      else (False, s))"

definition initializeItemLocations :: "room list \<Rightarrow> GameState \<Rightarrow> GameState" where
  "initializeItemLocations rs s =
     fold (\<lambda>r st. case items r of
                     None \<Rightarrow> st
                   | Some is \<Rightarrow> fold (\<lambda>itemId. setItemLocation itemId (ident r)) is st)
          rs s"

definition getItemLocation :: "GameState \<Rightarrow> string \<Rightarrow> string option" where
  "getItemLocation s itemId = map_of (itemLocations s) itemId"

definition state_getItemsInRoom :: "GameState \<Rightarrow> string \<Rightarrow> string list" where
  "state_getItemsInRoom s roomId =
     map fst (filter (\<lambda>(itemId, location). location = roomId) (itemLocations s))"

text \<open>\<open>this.flags\<close> starts as \<open>{}\<close>, so \<open>this.flags[flagName]\<close> also finds the
  inherited members. The truthiness of what \<open>getFlag\<close> returns is \<open>flagTruthy\<close>.\<close>

definition getFlag :: "GameState \<Rightarrow> string \<Rightarrow> jsval lookup" where
  "getFlag s flagName = getProp (map_of (flags s)) flagName"

definition flagTruthy :: "GameState \<Rightarrow> string \<Rightarrow> bool" where
  "flagTruthy s flagName =
     (case getFlag s flagName of
        Own v \<Rightarrow> truthy v
      | Inherited k \<Rightarrow> True
      | Undefined \<Rightarrow> False)"

text \<open>Assigning a primitive value to \<open>__proto__\<close> does nothing unless the object has an
  own key of that name.\<close>

definition setFlag :: "string \<Rightarrow> jsval \<Rightarrow> GameState \<Rightarrow> GameState" where
  "setFlag flagName v s =
     (if flagName = ''__proto__'' \<and> map_of (flags s) flagName = None then s
      else s\<lparr>flags := AList.update flagName v (flags s)\<rparr>)"

definition isSpace :: "char \<Rightarrow> bool" where
  "isSpace c = (c \<in> set [CHR '' '', CHR 0x09, CHR 0x0A, CHR 0x0B, CHR 0x0C, CHR 0x0D])"

definition trim :: "string \<Rightarrow> string" where
  "trim s = rev (dropWhile isSpace (rev (dropWhile isSpace s)))"

definition addToHistory :: "string \<Rightarrow> GameState \<Rightarrow> GameState" where
  "addToHistory cmd s =
     (if cmd = [] \<or> trim cmd = [] then s
      else (let h = (if commandHistory s \<noteq> [] \<and> cmd = last (commandHistory s)
                     then commandHistory s else commandHistory s @ [cmd])
            in s\<lparr>commandHistory := h, historyIndex := - 1, tempInput := []\<rparr>))"

definition getDialogueState :: "GameState \<Rightarrow> string \<Rightarrow> string option" where
  "getDialogueState s characterId = map_of (characterDialogueState s) characterId"

definition setDialogueState :: "string \<Rightarrow> string \<Rightarrow> GameState \<Rightarrow> GameState" where
  "setDialogueState characterId nodeId s =
     s\<lparr>characterDialogueState :=
         AList.update characterId nodeId (characterDialogueState s)\<rparr>"

section \<open>CommandParser.js\<close>

record command =
  verb :: jsword
  noun :: "jsword option"
  preposition :: "string option"
  target :: "string option"
  raw :: string
  tokens :: "string list"

definition prepositions :: "string list" where
  "prepositions = [''on'', ''with'', ''to'', ''in'', ''at'', ''from'', ''into'']"

definition articles :: "string list" where
  "articles = [''the'', ''a'', ''an'']"

definition createEmptyCommand :: "string \<Rightarrow> command" where
  "createEmptyCommand r =
     \<lparr> verb = Word [], noun = None, preposition = None, target = None, raw = r,
       tokens = [] \<rparr>"

text \<open>\<open>replace(/\s+/g, ' ')\<close>: every maximal run of white space becomes one space. The
  flag says that the previous character was white space.\<close>

fun collapseWs :: "bool \<Rightarrow> string \<Rightarrow> string" where
  "collapseWs inWs [] = []"
| "collapseWs inWs (c # cs) =
     (if isSpace c then (if inWs then collapseWs True cs else CHR '' '' # collapseWs True cs)
      else c # collapseWs False cs)"

definition normalizeInput :: "string \<Rightarrow> string" where
  "normalizeInput input = collapseWs False (trim (toLowerCase input))"

fun splitAcc :: "char \<Rightarrow> string \<Rightarrow> string \<Rightarrow> string list" where
  "splitAcc sep acc [] = [rev acc]"
| "splitAcc sep acc (c # cs) =
     (if c = sep then rev acc # splitAcc sep [] cs else splitAcc sep (c # acc) cs)"

definition tokenize :: "string \<Rightarrow> string list" where
  "tokenize input = filter (\<lambda>token. length token > 0) (splitAcc (CHR '' '') [] input)"

definition removeArticles :: "string list \<Rightarrow> string list" where
  "removeArticles ts = filter (\<lambda>token. token \<notin> set articles) ts"

text \<open>The tables \<open>verbSynonyms\<close> and \<open>directionSynonyms\<close> are the objects of
  \<open>commands.json\<close>; \<open>synonyms\<close> and \<open>directions\<close> give their own keys.\<close>

definition resolveVerbSynonym :: "commands \<Rightarrow> string \<Rightarrow> jsword" where
  "resolveVerbSynonym cfg v = propOr (getProp (synonyms cfg) v) v"

definition resolveDirection :: "commands \<Rightarrow> string \<Rightarrow> jsword" where
  "resolveDirection cfg direction =
     (let normalizedDirection = toLowerCase direction
      in propOr (getProp (directions cfg) normalizedDirection) normalizedDirection)"

fun findPrepositionIndex :: "string list \<Rightarrow> nat option" where
  "findPrepositionIndex [] = None"
| "findPrepositionIndex (t # ts) =
     (if t \<in> set prepositions then Some 0
      else map_option Suc (findPrepositionIndex ts))"

definition joinOrNull :: "string list \<Rightarrow> string option" where
  "joinOrNull ts = (if length ts > 0 then Some (joinWith '' '' ts) else None)"

definition parseNounPhrase :: "commands \<Rightarrow> string list \<Rightarrow> jsword \<Rightarrow> command \<Rightarrow> command" where
  "parseNounPhrase cfg ts v base =
     (case ts of
        [] \<Rightarrow> base\<lparr>noun := None, preposition := None, target := None\<rparr>
      | t0 # rest \<Rightarrow>
          if v = Word ''go'' \<or> v = Word ''walk'' \<or> v = Word ''move''
          then base\<lparr>noun := Some (resolveDirection cfg t0), preposition := None, target := None\<rparr>
          else (case findPrepositionIndex ts of
                  None \<Rightarrow> base\<lparr>noun := Some (Word (joinWith '' '' ts)), preposition := None,
                               target := None\<rparr>
                | Some prepIndex \<Rightarrow>
                    base\<lparr>noun := map_option Word (joinOrNull (take prepIndex ts)),
                         preposition := Some (ts ! prepIndex),
                         target := joinOrNull (drop (prepIndex + 1) ts)\<rparr>))"

definition parse :: "commands \<Rightarrow> string \<Rightarrow> command" where
  "parse cfg input =
     (if input = [] then createEmptyCommand input
      else let normalizedInput = normalizeInput input in
        if normalizedInput = [] then createEmptyCommand input
        else (case removeArticles (tokenize normalizedInput) of
                [] \<Rightarrow> createEmptyCommand input
              | rawVerb # remainingTokens \<Rightarrow>
                  (let v = resolveVerbSynonym cfg rawVerb
                   in parseNounPhrase cfg remainingTokens v
                        \<lparr> verb = v, noun = None, preposition = None, target = None,
                          raw = input, tokens = rawVerb # remainingTokens \<rparr>)))"

section \<open>The renderer as a log of calls\<close>

text \<open>
  The renderer only writes to the page. Every call of one of its methods by the engine is
  recorded, in order, as one \<open>narration\<close> value carrying the method and its arguments.
\<close>

datatype narration =
    DisplayMessage string
  | DisplayCommand string
  | DisplayError string
  | DisplaySuccess string
  | DisplaySuccessMessage string
  | DisplayWarning string
  | DisplaySystemMessage string
  | DisplayDialogue string string
  | DisplayRoomDescription room "item list" "character list" "(string \<times> string) list"
  | UpdateSuggestedCommands room "item list" "character list" "(string \<times> string) list"
  | UpdateStatusPanel

section \<open>GameRules.js\<close>

definition byId :: "('a \<Rightarrow> string) \<Rightarrow> 'a list \<Rightarrow> string \<rightharpoonup> 'a" where
  "byId key xs = fold (\<lambda>x m. m(key x \<mapsto> x)) xs Map.empty"

definition roomsById :: "content \<Rightarrow> string \<rightharpoonup> room" where
  "roomsById c = byId ident (c_rooms c)"

definition itemsById :: "content \<Rightarrow> string \<rightharpoonup> item" where
  "itemsById c = byId ident (c_items c)"

definition charactersById :: "content \<Rightarrow> string \<rightharpoonup> character" where
  "charactersById c = byId ident (c_characters c)"

datatype handler =
  HLook | HGo | HExamine | HTake | HDrop | HInventory | HTalk | HUse | HHelp | HQuit

definition handlerTable :: "(string \<times> handler) list" where
  "handlerTable =
     [(''look'', HLook), (''l'', HLook),
      (''go'', HGo), (''walk'', HGo), (''move'', HGo),
      (''examine'', HExamine), (''x'', HExamine), (''inspect'', HExamine),
      (''take'', HTake), (''get'', HTake), (''grab'', HTake), (''pickup'', HTake),
      (''drop'', HDrop), (''put'', HDrop), (''discard'', HDrop),
      (''inventory'', HInventory), (''i'', HInventory), (''inv'', HInventory),
      (''talk'', HTalk), (''speak'', HTalk), (''chat'', HTalk),
      (''use'', HUse), (''activate'', HUse),
      (''help'', HHelp), (''?'', HHelp),
      (''quit'', HQuit), (''exit'', HQuit)]"

text \<open>\<open>this.commandHandlers[verb]\<close>: the table is an object literal.\<close>

definition commandHandlers :: "string \<Rightarrow> handler lookup" where
  "commandHandlers = getProp (map_of handlerTable)"

text \<open>
  What the call \<open>handler(command)\<close> does when the handler is an inherited member:
  \<open>Object\<close> and \<open>toString\<close> return without any effect; \<open>__proto__\<close> is not a function,
  and each of the other members throws, being called without a receiver.
\<close>

definition callsQuietly :: "string \<Rightarrow> bool" where
  "callsQuietly k = (k = ''constructor'' \<or> k = ''toString'')"

definition getCurrentRoom :: "content \<Rightarrow> GameState \<Rightarrow> room option" where
  "getCurrentRoom c s = roomsById c (getCurrentRoomId s)"

definition validDirections :: "string list" where
  "validDirections =
     [''north'', ''south'', ''east'', ''west'', ''n'', ''s'', ''e'', ''w'',
      ''northeast'', ''northwest'', ''southeast'', ''southwest'',
      ''ne'', ''nw'', ''se'', ''sw'', ''up'', ''down'', ''u'', ''d'']"

definition isDirection :: "string \<Rightarrow> bool" where
  "isDirection word = (toLowerCase word \<in> set validDirections)"

definition directionMap :: "(string \<times> string) list" where
  "directionMap =
     [(''n'', ''north''), (''s'', ''south''), (''e'', ''east''), (''w'', ''west''),
      (''ne'', ''northeast''), (''nw'', ''northwest''), (''se'', ''southeast''),
      (''sw'', ''southwest''), (''u'', ''up''), (''d'', ''down'')]"

text \<open>\<open>directionMap[direction] || direction\<close>: the table is an object literal.\<close>

definition resolveDirectionSynonym :: "string \<Rightarrow> jsword" where
  "resolveDirectionSynonym direction =
     propOr (getProp (map_of directionMap) direction) direction"

definition matchesName :: "'a entity_scheme \<Rightarrow> string \<Rightarrow> bool" where
  "matchesName e searchName =
     (if toLowerCase (name e) = searchName then True
      else if toLowerCase (ident e) = searchName then True
      else if includesStr (toLowerCase (name e)) searchName then True
      else (case aliases e of
              None \<Rightarrow> False
            | Some als \<Rightarrow> list_ex (\<lambda>alias. toLowerCase alias = searchName) als))"

text \<open>The loop shared by \<open>findItemInInventory\<close>, \<open>findItemInRoom\<close> and
  \<open>findCharacterInRoom\<close>: the first identifier, in order, whose entity exists and matches.\<close>

fun findByName ::
  "(string \<rightharpoonup> 'a entity_scheme) \<Rightarrow> string \<Rightarrow> string list \<Rightarrow> 'a entity_scheme option" where
  "findByName tbl n [] = None"
| "findByName tbl n (i # is) =
     (case tbl i of
        None \<Rightarrow> findByName tbl n is
      | Some e \<Rightarrow> if matchesName e n then Some e else findByName tbl n is)"

definition findItemInInventory :: "content \<Rightarrow> GameState \<Rightarrow> string \<Rightarrow> item option" where
  "findItemInInventory c s n = findByName (itemsById c) n (getInventory s)"

definition findItemInRoom :: "content \<Rightarrow> GameState \<Rightarrow> string \<Rightarrow> item option" where
  "findItemInRoom c s n =
     findByName (itemsById c) n (state_getItemsInRoom s (getCurrentRoomId s))"

definition findCharacterInRoom :: "content \<Rightarrow> GameState \<Rightarrow> string \<Rightarrow> character option" where
  "findCharacterInRoom c s n =
     (case getCurrentRoom c s of
        None \<Rightarrow> None
      | Some r \<Rightarrow> (case characters r of
                     None \<Rightarrow> None
                   | Some cs \<Rightarrow> findByName (charactersById c) n cs))"

definition matchesEntity :: "content \<Rightarrow> string \<Rightarrow> string \<Rightarrow> bool" where
  "matchesEntity c entityId searchName =
     (if (case itemsById c entityId of None \<Rightarrow> False | Some it \<Rightarrow> matchesName it searchName)
      then True
      else (case charactersById c entityId of
              None \<Rightarrow> False
            | Some ch \<Rightarrow> matchesName ch searchName))"

definition getItemsInRoom :: "content \<Rightarrow> GameState \<Rightarrow> string \<Rightarrow> item list" where
  "getItemsInRoom c s roomId =
     concat (map (\<lambda>itemId. case itemsById c itemId of
                              None \<Rightarrow> []
                            | Some it \<Rightarrow> if visible it \<noteq> Some False then [it] else [])
                 (state_getItemsInRoom s roomId))"

definition getCharactersInRoom :: "content \<Rightarrow> string \<Rightarrow> character list" where
  "getCharactersInRoom c roomId =
     (case roomsById c roomId of
        None \<Rightarrow> []
      | Some r \<Rightarrow> (case characters r of
                     None \<Rightarrow> []
                   | Some cs \<Rightarrow>
                       concat (map (\<lambda>charId. case charactersById c charId of
                                                None \<Rightarrow> []
                                              | Some ch \<Rightarrow> [ch]) cs)))"

definition checkUnlockCondition :: "GameState \<Rightarrow> lockedInfo \<Rightarrow> bool" where
  "checkUnlockCondition s li =
     (if (case requiresItem li of
            None \<Rightarrow> False
          | Some i \<Rightarrow> i \<noteq> [] \<and> \<not> hasItem s i) then False
      else if (case requiresFlag li of
                 None \<Rightarrow> False
               | Some f \<Rightarrow> f \<noteq> [] \<and> \<not> flagTruthy s f) then False
      else True)"

definition displayRoomDescription :: "content \<Rightarrow> GameState \<Rightarrow> room \<Rightarrow> narration list" where
  "displayRoomDescription c s r =
     (let its = getItemsInRoom c s (ident r);
          chs = getCharactersInRoom c (ident r);
          ex = (case exits r of None \<Rightarrow> [] | Some e \<Rightarrow> e)
      in [DisplayRoomDescription r its chs ex, UpdateSuggestedCommands r its chs ex])"

definition displayItemDescription :: "GameState \<Rightarrow> item \<Rightarrow> narration list" where
  "displayItemDescription s it =
     [DisplayMessage
        (fold (\<lambda>(flag, txt) d. if flagTruthy s flag then d @ [CHR 0x0A] @ txt else d)
              (case stateDescriptions it of None \<Rightarrow> [] | Some sd \<Rightarrow> sd)
              (description it))]"

definition displayCharacterDescription :: "character \<Rightarrow> narration list" where
  "displayCharacterDescription ch = [DisplayMessage (description ch)]"

definition showAvailableExits :: "room \<Rightarrow> narration list" where
  "showAvailableExits r =
     (case exits r of
        None \<Rightarrow> []
      | Some ex \<Rightarrow> if length ex = 0 then []
                   else [DisplayMessage (''Available exits: '' @ joinWith '', '' (map fst ex))])"

definition processEvent :: "event \<Rightarrow> GameState \<Rightarrow> GameState \<times> narration list" where
  "processEvent ev s =
     (let o1 = (if present (ev_message ev) then [DisplayMessage (orElse (ev_message ev) [])]
                else []);
          s1 = (case ev_setFlag ev of
                  None \<Rightarrow> s
                | Some f \<Rightarrow> if f = [] then s else setFlag f (JBool True) s);
          s2 = (case ev_giveItem ev of
                  None \<Rightarrow> s1
                | Some g \<Rightarrow> if g = [] then s1 else addItem g s1)
      in (s2, o1))"

definition executeUseAction ::
  "content \<Rightarrow> item \<Rightarrow> useAction \<Rightarrow> GameState \<Rightarrow> GameState \<times> narration list" where
  "executeUseAction c it action s =
     (let o1 = (if present (ua_message action)
                then [DisplaySuccess (orElse (ua_message action) [])] else []);
          s1 = (case ua_setFlag action of
                  None \<Rightarrow> s
                | Some f \<Rightarrow> if f = [] then s else setFlag f (JBool True) s);
          s2 = (case ua_giveItem action of
                  None \<Rightarrow> s1
                | Some g \<Rightarrow> if g = [] then s1 else addItem g s1);
          o2 = (case ua_giveItem action of
                  None \<Rightarrow> []
                | Some g \<Rightarrow> if g = [] then []
                    else (case itemsById c g of
                            None \<Rightarrow> []
                          | Some givenItem \<Rightarrow>
                              [DisplayMessage (''You obtained: '' @ name givenItem)]));
          s3 = (if ua_consume action
                then setItemLocation (ident it) ''nowhere'' (snd (removeItem (ident it) s2))
                else s2)
      in (s3, o1 @ o2))"

definition displayDialogueNode ::
  "content \<Rightarrow> character \<Rightarrow> dialogueNode \<Rightarrow> GameState \<Rightarrow> GameState \<times> narration list" where
  "displayDialogueNode c ch node s =
     (let o1 = [DisplayDialogue (name ch) (node_text node)];
          s1 = (case node_setFlag node of
                  None \<Rightarrow> s
                | Some f \<Rightarrow> if f = [] then s else setFlag f (JBool True) s);
          s2 = (case node_giveItem node of
                  None \<Rightarrow> s1
                | Some g \<Rightarrow> if g = [] then s1 else addItem g s1);
          o2 = (case node_giveItem node of
                  None \<Rightarrow> []
                | Some g \<Rightarrow> if g = [] then []
                    else (case itemsById c g of
                            None \<Rightarrow> []
                          | Some it \<Rightarrow>
                              [DisplaySuccess (name ch @ '' gives you: '' @ name it)]));
          s3 = (if present (nextNode node)
                then setDialogueState (ident ch) (orElse (nextNode node) []) s2
                else if present (loop node)
                then setDialogueState (ident ch) (orElse (loop node) []) s2
                else s2)
      in (s3, o1 @ o2))"

definition runDialogue :: "content \<Rightarrow> character \<Rightarrow> GameState \<Rightarrow> GameState \<times> narration list" where
  "runDialogue c ch s =
     (case (case dialogue ch of None \<Rightarrow> [] | Some d \<Rightarrow> d) of
        [] \<Rightarrow> (s, [DisplayMessage
                     (orElse (defaultGreeting ch)
                        (name ch @ '' doesn't seem to have anything to say.''))])
      | firstNode # restNodes \<Rightarrow>
          (let currentNodeId =
                 (if present (getDialogueState s (ident ch))
                  then orElse (getDialogueState s (ident ch)) []
                  else node_id firstNode)
           in (case find (\<lambda>n. node_id n = currentNodeId) (firstNode # restNodes) of
                 None \<Rightarrow> displayDialogueNode c ch firstNode s
               | Some node \<Rightarrow> displayDialogueNode c ch node s)))"

subsection \<open>Command handlers\<close>

text \<open>
  A handler returns the state it leaves and what it narrated, or the error it threw.
  Wherever a handler can throw it does so before it has changed the state or narrated
  anything, so that an error carries nothing else.
\<close>

type_synonym outcome = "error + GameState \<times> narration list"

definition handleExamine :: "content \<Rightarrow> command \<Rightarrow> GameState \<Rightarrow> outcome" where
  \<open>handleExamine c cmd s =
     (if \<not> given (noun cmd)
      then Inr (s, [DisplayError ''Examine what? Try "examine <something>".''])
      else
        (case lowerOf (noun cmd) of
           Inl e \<Rightarrow> Inl e
         | Inr thingToExamine \<Rightarrow>
        (case findItemInInventory c s thingToExamine of
           Some inventoryItem \<Rightarrow> Inr (s, displayItemDescription s inventoryItem)
         | None \<Rightarrow>
        (case findItemInRoom c s thingToExamine of
           Some roomItem \<Rightarrow> Inr (s, displayItemDescription s roomItem)
         | None \<Rightarrow>
        (case findCharacterInRoom c s thingToExamine of
           Some ch \<Rightarrow> Inr (s, displayCharacterDescription ch)
         | None \<Rightarrow>
        (case truthyProp (case getCurrentRoom c s of
                            None \<Rightarrow> Undefined
                          | Some r \<Rightarrow> lookupP (features r) thingToExamine) of
           Some (Word feature) \<Rightarrow> Inr (s, [DisplayMessage feature])
         | Some (Member k) \<Rightarrow> Inl TypeError
         | None \<Rightarrow>
             Inr (s, [DisplayError
                        (''You don't see any "'' @ textOf (noun cmd) @ ''" here.'')])))))))\<close>

definition handleLook :: "content \<Rightarrow> command \<Rightarrow> GameState \<Rightarrow> outcome" where
  "handleLook c cmd s =
     (if given (noun cmd) then handleExamine c cmd s
      else (case getCurrentRoom c s of
              None \<Rightarrow> Inr (s, [DisplayError ''Error: Current room not found!''])
            | Some r \<Rightarrow>
                (let s1 = markRoomVisited (ident r) s
                 in Inr (s1, displayRoomDescription c s1 r))))"

text \<open>
  In \<open>handleGo\<close> the resolved direction is used as a property key and inside template
  literals, hence as its text. An inherited member found in the table of locked exits has
  neither \<open>requiresItem\<close> nor \<open>requiresFlag\<close>, so its unlock condition holds; one found as
  the target of an exit is no key of the table of rooms.
\<close>

definition handleGo :: "content \<Rightarrow> command \<Rightarrow> GameState \<Rightarrow> outcome" where
  \<open>handleGo c cmd s =
     (if \<not> given (noun cmd)
      then Inr (s, [DisplayError ''Which direction? Try "go north" or just "north".''])
      else (case getCurrentRoom c s of
              None \<Rightarrow> Inr (s, [DisplayError ''Error: Current room not found!''])
            | Some r \<Rightarrow>
         (case lowerOf (noun cmd) of
            Inl e \<Rightarrow> Inl e
          | Inr rawDirection \<Rightarrow>
         (let direction = toText (resolveDirectionSynonym rawDirection)
          in case truthyProp (lookupP (exits r) direction) of
               None \<Rightarrow>
                 Inr (s, [DisplayError (''You can't go '' @ direction @ '' from here.'')]
                         @ showAvailableExits r)
             | Some targetRoomId \<Rightarrow>
          (case (case lookupP (lockedExits r) direction of
                   Own li \<Rightarrow> if \<not> checkUnlockCondition s li then Some li else None
                 | Inherited k \<Rightarrow> None
                 | Undefined \<Rightarrow> None) of
             Some li \<Rightarrow>
               Inr (s, [DisplayWarning
                          (orElse (lock_message li) (''The way '' @ direction @ '' is locked.''))])
           | None \<Rightarrow>
               (case (case targetRoomId of
                        Word t \<Rightarrow> map_option (Pair t) (roomsById c t)
                      | Member k \<Rightarrow> None) of
                  None \<Rightarrow>
                    Inr (s, [DisplayError
                               (''Error: Target room "'' @ toText targetRoomId
                                @ ''" not found!'')])
                | Some (t, targetRoom) \<Rightarrow>
                    (let s1 = setCurrentRoom t s
                     in Inr (markRoomVisited t s1,
                             [DisplayMessage (''You go '' @ direction @ ''.'' @ [CHR 0x0A])]
                             @ displayRoomDescription c s1 targetRoom))))))))\<close>

definition handleTake :: "content \<Rightarrow> command \<Rightarrow> GameState \<Rightarrow> outcome" where
  \<open>handleTake c cmd s =
     (if \<not> given (noun cmd)
      then Inr (s, [DisplayError ''Take what? Try "take <item>".''])
      else
        (case lowerOf (noun cmd) of
           Inl e \<Rightarrow> Inl e
         | Inr itemName \<Rightarrow>
        (case findItemInRoom c s itemName of
           None \<Rightarrow>
             (case findItemInInventory c s itemName of
                Some inInventory \<Rightarrow>
                  Inr (s, [DisplayMessage (''You already have the '' @ name inInventory @ ''.'')])
              | None \<Rightarrow>
                  Inr (s, [DisplayError
                             (''You don't see any "'' @ textOf (noun cmd)
                              @ ''" here to take.'')]))
         | Some it \<Rightarrow>
             if takeable it = Some False
             then Inr (s, [DisplayWarning
                             (orElse (takeFailMessage it)
                                (''You can't take the '' @ name it @ ''.''))])
             else (let s1 = addItem (ident it) s;
                       o1 = [DisplaySuccess (''You pick up the '' @ name it @ ''.'')]
                   in (case onTake it of
                         None \<Rightarrow> Inr (s1, o1)
                       | Some ev \<Rightarrow>
                           (let (s2, o2) = processEvent ev s1 in Inr (s2, o1 @ o2)))))))\<close>

definition handleDrop :: "content \<Rightarrow> command \<Rightarrow> GameState \<Rightarrow> outcome" where
  \<open>handleDrop c cmd s =
     (if \<not> given (noun cmd)
      then Inr (s, [DisplayError ''Drop what? Try "drop <item>".''])
      else
        (case lowerOf (noun cmd) of
           Inl e \<Rightarrow> Inl e
         | Inr itemName \<Rightarrow>
        (case findItemInInventory c s itemName of
           None \<Rightarrow>
             Inr (s, [DisplayError
                        (''You're not carrying any "'' @ textOf (noun cmd) @ ''".'')])
         | Some it \<Rightarrow>
             (let currentRoomId = getCurrentRoomId s;
                  s1 = snd (removeItem (ident it) s);
                  s2 = setItemLocation (ident it) currentRoomId s1
              in Inr (s2, [DisplaySuccess (''You drop the '' @ name it @ ''.'')])))))\<close>

text \<open>The bullet of the inventory listing is U+2022, written here as its UTF-8 bytes.\<close>

definition handleInventory :: "content \<Rightarrow> command \<Rightarrow> GameState \<Rightarrow> outcome" where
  "handleInventory c cmd s =
     (let inventoryIds = getInventory s
      in if length inventoryIds = 0
         then Inr (s, [DisplayMessage ''You're not carrying anything.''])
         else Inr (s, [DisplayMessage
                (fold (\<lambda>itemId inventoryText.
                         case itemsById c itemId of
                           None \<Rightarrow> inventoryText
                         | Some it \<Rightarrow>
                             inventoryText @ ''  '' @ [CHR 0xE2, CHR 0x80, CHR 0xA2] @ '' ''
                               @ name it
                               @ (if present (shortDescription it)
                                  then '' - '' @ orElse (shortDescription it) [] else [])
                               @ [CHR 0x0A])
                      inventoryIds (''You are carrying:'' @ [CHR 0x0A]))]))"

definition handleTalk :: "content \<Rightarrow> command \<Rightarrow> GameState \<Rightarrow> outcome" where
  \<open>handleTalk c cmd s =
     (if \<not> given (noun cmd)
      then (case (case getCurrentRoom c s of None \<Rightarrow> None | Some r \<Rightarrow> characters r) of
              None \<Rightarrow> Inr (s, [DisplayError ''There's no one here to talk to.''])
            | Some cs \<Rightarrow>
                if length cs > 0
                then Inr (s, [DisplayError
                                (''Talk to whom? You can see: ''
                                 @ joinWith '', '' (map (\<lambda>i. case charactersById c i of
                                                                None \<Rightarrow> i
                                                              | Some ch \<Rightarrow> name ch) cs))])
                else Inr (s, [DisplayError ''There's no one here to talk to.'']))
      else
        (case lowerOf (noun cmd) of
           Inl e \<Rightarrow> Inl e
         | Inr characterName \<Rightarrow>
        (case findCharacterInRoom c s characterName of
           None \<Rightarrow>
             Inr (s, [DisplayError
                        (''You don't see "'' @ textOf (noun cmd) @ ''" here to talk to.'')])
         | Some ch \<Rightarrow> Inr (runDialogue c ch s))))\<close>

definition targetMatches :: "content \<Rightarrow> string \<Rightarrow> useAction \<Rightarrow> bool" where
  "targetMatches c targetName action =
     (case ua_target action of
        None \<Rightarrow> False
      | Some t \<Rightarrow> if t = [] then False
                  else toLowerCase t = targetName \<or> matchesEntity c t targetName)"

definition handleUse :: "content \<Rightarrow> command \<Rightarrow> GameState \<Rightarrow> outcome" where
  \<open>handleUse c cmd s =
     (if \<not> given (noun cmd)
      then Inr (s, [DisplayError ''Use what? Try "use <item>" or "use <item> on <target>".''])
      else
        (case lowerOf (noun cmd) of
           Inl e \<Rightarrow> Inl e
         | Inr itemName \<Rightarrow>
        (case findItemInInventory c s itemName of
           None \<Rightarrow>
             (case findItemInRoom c s itemName of
                Some roomItem \<Rightarrow>
                  Inr (s, [DisplayWarning
                             (''You need to pick up the '' @ name roomItem
                              @ '' first. Try "take '' @ toLowerCase (name roomItem) @ ''".'')])
              | None \<Rightarrow>
                  Inr (s, [DisplayError
                             (''You don't have any "'' @ textOf (noun cmd) @ ''".'')]))
         | Some it \<Rightarrow>
             (case (case useActions it of None \<Rightarrow> [] | Some as \<Rightarrow> as) of
                [] \<Rightarrow>
                  Inr (s, [DisplayMessage
                             (orElse (useFailMessage it)
                                (''You're not sure how to use the '' @ name it @ ''.''))])
              | a0 # as \<Rightarrow>
                  if \<not> present (target cmd)
                  then (case find (\<lambda>action. \<not> present (ua_target action)) (a0 # as) of
                          Some defaultAction \<Rightarrow> Inr (executeUseAction c it defaultAction s)
                        | None \<Rightarrow>
                            Inr (s, [DisplayError
                                       (''Use the '' @ name it @ '' on what? Try "use ''
                                        @ toLowerCase (name it) @ '' on <target>".'')]))
                  else (let targetName = toLowerCase (orElse (target cmd) [])
                        in (case find (targetMatches c targetName) (a0 # as) of
                              Some matchingAction \<Rightarrow>
                                Inr (executeUseAction c it matchingAction s)
                            | None \<Rightarrow>
                                Inr (s, [DisplayMessage
                                           (''Nothing happens when you try to use the ''
                                            @ name it @ '' on '' @ orElse (target cmd) []
                                            @ ''.'')])))))))\<close>

text \<open>The help banner, a fixed text. Its frame is drawn with the box characters U+2550
  to U+2563, written here as their UTF-8 bytes.\<close>

definition helpRule :: "char \<Rightarrow> char \<Rightarrow> string" where
  "helpRule l r =
     [CHR 0xE2, CHR 0x95, l] @ concat (replicate 64 [CHR 0xE2, CHR 0x95, CHR 0x90])
     @ [CHR 0xE2, CHR 0x95, r] @ [CHR 0x0A]"

definition helpLine :: "string \<Rightarrow> string" where
  "helpLine t = [CHR 0xE2, CHR 0x95, CHR 0x91] @ t @ [CHR 0xE2, CHR 0x95, CHR 0x91] @ [CHR 0x0A]"

definition helpText :: string where
  "helpText =
     [CHR 0x0A]
     @ helpRule (CHR 0x94) (CHR 0x97)
     @ helpLine ''                      STELLAR VOYAGER HELP                       ''
     @ helpRule (CHR 0xA0) (CHR 0xA3)
     @ helpLine ''  MOVEMENT                                                       ''
     @ helpLine ''    go <direction>  - Move in a direction (north, south, etc.)  ''
     @ helpLine ''    n/s/e/w         - Shortcut for go north/south/east/west     ''
     @ helpLine ''                                                                 ''
     @ helpLine ''  EXPLORATION                                                    ''
     @ helpLine ''    look (or l)     - Describe your surroundings                ''
     @ helpLine ''    examine <thing> - Look closely at something                 ''
     @ helpLine ''                                                                 ''
     @ helpLine ''  INVENTORY                                                      ''
     @ helpLine ''    take <item>     - Pick up an item                           ''
     @ helpLine ''    drop <item>     - Put down an item                          ''
     @ helpLine ''    inventory (or i)- List what you're carrying                 ''
     @ helpLine ''                                                                 ''
     @ helpLine ''  INTERACTION                                                    ''
     @ helpLine ''    talk <person>   - Talk to a character                       ''
     @ helpLine ''    use <item>      - Use an item                               ''
     @ helpLine ''    use <item> on <target> - Use item on something              ''
     @ helpLine ''                                                                 ''
     @ helpLine ''  OTHER                                                          ''
     @ helpLine ''    help (or ?)     - Show this help                            ''
     @ helpRule (CHR 0x9A) (CHR 0x9D)
     @ [CHR 0x0A]
     @ ''TIP: You can use abbreviated directions: n, s, e, w, ne, nw, se, sw, u, d'' @ [CHR 0x0A]"

definition handleHelp :: "content \<Rightarrow> command \<Rightarrow> GameState \<Rightarrow> outcome" where
  "handleHelp c cmd s = Inr (s, [DisplaySystemMessage helpText])"

definition handleQuit :: "content \<Rightarrow> command \<Rightarrow> GameState \<Rightarrow> outcome" where
  "handleQuit c cmd s =
     Inr (s, [DisplayMessage ''Thanks for playing! Refresh the page to start a new game.''])"

fun runHandler :: "handler \<Rightarrow> content \<Rightarrow> command \<Rightarrow> GameState \<Rightarrow> outcome" where
  "runHandler HLook = handleLook"
| "runHandler HGo = handleGo"
| "runHandler HExamine = handleExamine"
| "runHandler HTake = handleTake"
| "runHandler HDrop = handleDrop"
| "runHandler HInventory = handleInventory"
| "runHandler HTalk = handleTalk"
| "runHandler HUse = handleUse"
| "runHandler HHelp = handleHelp"
| "runHandler HQuit = handleQuit"

text \<open>
  \<open>execute\<close>: a verb that is not a string makes \<open>isDirection\<close> throw, which calls
  \<open>word.toLowerCase()\<close>. A verb that names an inherited member of the handler table has
  that member called as its handler.
\<close>

definition execute :: "content \<Rightarrow> command \<Rightarrow> GameState \<Rightarrow> outcome" where
  \<open>execute c cmd s =
     (if verb cmd = Word []
      then Inr (s, [DisplayMessage
                      ''What would you like to do? Type "help" for available commands.''])
      else (case verb cmd of
              Member k \<Rightarrow> Inl TypeError
            | Word v \<Rightarrow>
                if isDirection v then handleGo c (cmd\<lparr>noun := Some (Word v)\<rparr>) s
                else (case commandHandlers v of
                        Own h \<Rightarrow> runHandler h c cmd s
                      | Inherited k \<Rightarrow> if callsQuietly k then Inr (s, []) else Inl TypeError
                      | Undefined \<Rightarrow>
                          Inr (s, [DisplayError
                                     (''I don't understand "'' @ v
                                      @ ''". Type "help" to see available commands.'')]))))\<close>

section \<open>main.js\<close>

definition checkGameCompletion :: "content \<Rightarrow> GameState \<Rightarrow> GameState \<times> narration list" where
  "checkGameCompletion c s =
     (if flagTruthy s ''gameCompleted'' then (s, [])
      else (case objectives (c_config c) of
              None \<Rightarrow> (s, [])
            | Some objs \<Rightarrow>
                if list_all (\<lambda>ob. flagTruthy s (obj_flag ob)) objs
                then (setFlag ''gameCompleted'' (JBool True) s,
                      [DisplaySuccessMessage
                         ([CHR 0x0A]
                          @ orElse (victoryText (c_config c))
                              ''Congratulations! You have completed all objectives!''
                          @ [CHR 0x0A])])
                else (s, [])))"

text \<open>
  \<open>executeCommand\<close> is called from the event handlers of the page. When \<open>execute\<close>
  throws, the error leaves \<open>executeCommand\<close>: the command has been echoed and entered in
  the history, the status panel is not updated and completion is not checked. The next
  command is handled as usual. The result is the state, the narration and the error, if
  any.
\<close>

definition executeCommand ::
  "content \<Rightarrow> string \<Rightarrow> GameState \<Rightarrow> GameState \<times> narration list \<times> error option" where
  "executeCommand c commandText s =
     (let o0 = (if toLowerCase commandText \<noteq> ''look'' \<or> length (commandHistory s) > 0
                then [DisplayCommand commandText] else []);
          s1 = addToHistory commandText s;
          parsedCommand = parse (c_commands c) commandText
      in case execute c parsedCommand s1 of
           Inl e \<Rightarrow> (s1, o0, Some e)
         | Inr (s2, o2) \<Rightarrow>
             (let (s3, o3) = checkGameCompletion c s2
              in (s3, o0 @ o2 @ [UpdateStatusPanel] @ o3, None)))"

text \<open>The state with which the session starts: the constructor of \<open>GameState\<close>, then the
  constructor of \<open>GameRules\<close>, which records where the rooms hold their items.\<close>

definition initialState :: "content \<Rightarrow> GameState" where
  "initialState c = initializeItemLocations (c_rooms c) (newGameState (c_config c))"

text \<open>A session: the commands are executed one after the other; the result is the final
  state and, for each command, its narration and the error it threw, if any.\<close>

fun runCommands ::
  "content \<Rightarrow> string list \<Rightarrow> GameState \<Rightarrow>
   GameState \<times> (narration list \<times> error option) list" where
  "runCommands c [] s = (s, [])"
| "runCommands c (t # ts) s =
     (let (s1, o1) = executeCommand c t s;
          (s2, os) = runCommands c ts s1
      in (s2, o1 # os))"

section \<open>A small world used to exercise the engine\<close>

definition mkItem :: "string \<Rightarrow> string \<Rightarrow> string \<Rightarrow> item" where
  "mkItem i n d =
     \<lparr> ident = i, name = n, description = d, aliases = None, shortDescription = None,
       takeable = None, visible = None, takeFailMessage = None, onTake = None,
       useActions = None, useFailMessage = None, stateDescriptions = None \<rparr>"

definition exSword :: item where
  "exSword = mkItem ''sword'' ''Sword'' ''A sharp blade.''"

definition exKey :: item where
  "exKey = (mkItem ''key'' ''Key'' ''A small brass key.'')\<lparr>visible := Some False\<rparr>"

definition exActDoor :: useAction where
  "exActDoor = \<lparr> ua_target = Some ''door'', ua_message = Some ''The door beeps.'',
                 ua_setFlag = Some ''doorOpen'', ua_giveItem = None, ua_consume = False \<rparr>"

definition exActWave :: useAction where
  "exActWave = \<lparr> ua_target = None, ua_message = Some ''You wave the keycard.'',
                 ua_setFlag = Some ''foundKey'', ua_giveItem = None, ua_consume = False \<rparr>"

definition exKeycard :: item where
  "exKeycard = (mkItem ''keycard'' ''Red Keycard'' ''A plastic card.'')
     \<lparr> aliases := Some [''card''],
       useActions := Some [exActDoor, exActWave] \<rparr>"

definition exTrophy :: item where
  "exTrophy = (mkItem ''trophy'' ''Trophy'' ''A golden cup.'')
     \<lparr> onTake := Some \<lparr> ev_message = None, ev_setFlag = Some ''gameCompleted'',
                        ev_giveItem = None \<rparr> \<rparr>"

definition exGreet :: dialogueNode where
  "exGreet = \<lparr> node_id = ''greet'', node_text = ''Halt!'', node_setFlag = None,
               node_giveItem = None, nextNode = Some ''ready'', loop = None \<rparr>"

definition exReady :: dialogueNode where
  "exReady = \<lparr> node_id = ''ready'', node_text = ''Move along.'', node_setFlag = None,
               node_giveItem = None, nextNode = None, loop = Some ''ready'' \<rparr>"

definition exGuard :: character where
  "exGuard =
     \<lparr> ident = ''guard'', name = ''Guard'', description = ''A bored guard.'', aliases = None,
       defaultGreeting = None,
       dialogue = Some [exGreet, exReady] \<rparr>"

definition exLock :: lockedInfo where
  "exLock = \<lparr> requiresItem = Some ''keycard'', requiresFlag = None,
              lock_message = Some ''The vault door is locked.'' \<rparr>"

definition exBridge :: room where
  "exBridge =
     \<lparr> ident = ''bridge'', name = ''Bridge'', description = ''The command bridge.'',
       exits = Some [(''east'', ''corridor''), (''north'', ''vault'')],
       lockedExits = Some [(''north'', exLock)],
       items = Some [''sword'', ''key'', ''keycard'', ''trophy''],
       characters = Some [''guard''], features = None \<rparr>"

definition exCorridor :: room where
  "exCorridor =
     \<lparr> ident = ''corridor'', name = ''Corridor'', description = ''A long corridor.'',
       exits = Some [(''west'', ''bridge'')], lockedExits = None, items = None,
       characters = None, features = None \<rparr>"

definition exVault :: room where
  "exVault =
     \<lparr> ident = ''vault'', name = ''Vault'', description = ''A cold vault.'',
       exits = Some [(''south'', ''bridge'')], lockedExits = None, items = None,
       characters = None, features = None \<rparr>"

definition exWorld :: content where
  "exWorld =
     \<lparr> c_rooms = [exBridge, exCorridor, exVault],
       c_items = [exSword, exKey, exKeycard, exTrophy],
       c_characters = [exGuard],
       c_commands = \<lparr> synonyms = [''get'' \<mapsto> ''take'', ''grab'' \<mapsto> ''take''],
                      directions = [''n'' \<mapsto> ''north'', ''s'' \<mapsto> ''south''] \<rparr>,
       c_config = \<lparr> startingRoom = ''bridge'', title = ''Demo'', introText = None,
                    objectives = Some [\<lparr> obj_flag = ''foundKey'',
                                          obj_description = ''Find the key'' \<rparr>],
                    victoryText = None \<rparr> \<rparr>"

definition exStart :: GameState where
  "exStart = initialState exWorld"

definition mkCommand :: "string \<Rightarrow> string option \<Rightarrow> string option \<Rightarrow> command" where
  "mkCommand v n t =
     \<lparr> verb = Word v, noun = map_option Word n, preposition = None, target = t, raw = [],
       tokens = [] \<rparr>"

text \<open>The state in which a handler leaves the game, the one before when it throws.\<close>

definition stateOf :: "GameState \<Rightarrow> error + GameState \<times> narration list \<Rightarrow> GameState" where
  "stateOf s r = (case r of Inl e \<Rightarrow> s | Inr (s', out) \<Rightarrow> s')"

text \<open>What a handler has narrated, nothing when it throws.\<close>

definition narrationOf :: "error + GameState \<times> narration list \<Rightarrow> narration list" where
  "narrationOf r = (case r of Inl e \<Rightarrow> [] | Inr (s', out) \<Rightarrow> out)"

definition exCarrying :: GameState where
  "exCarrying =
     stateOf exStart (handleTake exWorld (mkCommand ''take'' (Some ''keycard'') None) exStart)"

section \<open>The four ways in which a name matches\<close>

text \<open>The four tests of \<open>matchesName\<close>, each under a name of its own.\<close>

definition nameMatch :: "'a entity_scheme \<Rightarrow> string \<Rightarrow> bool" where
  "nameMatch e searchName = (toLowerCase (name e) = searchName)"
definition idMatch :: "'a entity_scheme \<Rightarrow> string \<Rightarrow> bool" where
  "idMatch e searchName = (toLowerCase (ident e) = searchName)"
definition substringMatch :: "'a entity_scheme \<Rightarrow> string \<Rightarrow> bool" where
  "substringMatch e searchName = includesStr (toLowerCase (name e)) searchName"
definition aliasMatch :: "'a entity_scheme \<Rightarrow> string \<Rightarrow> bool" where
  "aliasMatch e searchName =
     (case aliases e of None \<Rightarrow> False
      | Some als \<Rightarrow> list_ex (\<lambda>alias. toLowerCase alias = searchName) als)"

text \<open>The state after picking up the keycard and then the key.\<close>

definition exBoth :: GameState where
  "exBoth =
     stateOf exCarrying (handleTake exWorld (mkCommand ''take'' (Some ''key'') None) exCarrying)"




text \<open>The game state proper: the state without the three fields that serve the recall of
  typed lines in the input field. These are the fields that \<open>toJSON\<close> leaves out.\<close>

definition withoutHistory :: "GameState \<Rightarrow> GameState" where
  "withoutHistory s = s\<lparr>commandHistory := [], historyIndex := - 1, tempInput := []\<rparr>"

text \<open>Replacing the three history fields.\<close>

definition putHistory :: "string list \<Rightarrow> int \<Rightarrow> string \<Rightarrow> GameState \<Rightarrow> GameState" where
  "putHistory h i t s = s\<lparr>commandHistory := h, historyIndex := i, tempInput := t\<rparr>"




text \<open>The state after the first talk to the guard.\<close>

definition exTalked :: GameState where
  "exTalked =
     stateOf exStart (handleTalk exWorld (mkCommand ''talk'' (Some ''guard'') None) exStart)"

text \<open>A second character on the bridge, two of whose dialogue nodes carry the same
  identifier; the second of them loops on itself.\<close>

definition exFirst :: dialogueNode where
  "exFirst = \<lparr> node_id = ''a'', node_text = ''First.'', node_setFlag = None,
               node_giveItem = None, nextNode = Some ''c'', loop = None \<rparr>"

definition exSecond :: dialogueNode where
  "exSecond = \<lparr> node_id = ''a'', node_text = ''Second.'', node_setFlag = None,
                node_giveItem = None, nextNode = None, loop = Some ''a'' \<rparr>"

definition exThird :: dialogueNode where
  "exThird = \<lparr> node_id = ''c'', node_text = ''Third.'', node_setFlag = None,
               node_giveItem = None, nextNode = Some ''a'', loop = None \<rparr>"

definition exTwin :: character where
  "exTwin =
     \<lparr> ident = ''twin'', name = ''Twin'', description = ''A talkative twin.'', aliases = None,
       defaultGreeting = None,
       dialogue = Some [exFirst, exSecond, exThird] \<rparr>"

definition exTwins :: content where
  "exTwins =
     exWorld\<lparr> c_rooms := [exBridge\<lparr>characters := Some [''guard'', ''twin'']\<rparr>,
                          exCorridor, exVault],
              c_characters := [exGuard, exTwin] \<rparr>"

text \<open>The state after talking to the twin twice.\<close>

definition exTwice :: GameState where
  "exTwice = fst (runCommands exTwins [''talk twin'', ''talk twin''] (initialState exTwins))"

section \<open>Counting victory narrations\<close>

text \<open>The victory narration is the one call of \<open>displaySuccessMessage\<close>, made by
  \<open>checkGameCompletion\<close>; no other code calls that method.\<close>

fun isVictory :: "narration \<Rightarrow> bool" where
  "isVictory (DisplaySuccessMessage t) = True"
| "isVictory _ = False"

definition victories :: "narration list \<Rightarrow> nat" where
  "victories out = length (filter isVictory out)"

text \<open>The test of \<open>checkGameCompletion\<close>: objectives are configured and the flag of every
  one of them is truthy.\<close>

definition objectivesComplete :: "content \<Rightarrow> GameState \<Rightarrow> bool" where
  "objectivesComplete c s =
     (case objectives (c_config c) of
        None \<Rightarrow> False
      | Some objs \<Rightarrow> list_all (\<lambda>ob. flagTruthy s (obj_flag ob)) objs)"

text \<open>What the rules make of a command: they run on the parsed text, in the state in
  which the raw text has gone into the history.\<close>

definition afterRules ::
  "content \<Rightarrow> string \<Rightarrow> GameState \<Rightarrow> error + GameState \<times> narration list" where
  "afterRules c t s = execute c (parse (c_commands c) t) (addToHistory t s)"

text \<open>The same world with one objective, whose flag is named \<open>constructor\<close>.\<close>

definition exInherited :: content where
  "exInherited =
     exWorld\<lparr>c_config := (c_config exWorld)
       \<lparr>objectives := Some [\<lparr> obj_flag = ''constructor'',
                                obj_description = ''Build something'' \<rparr>]\<rparr>\<rparr>"

section \<open>Carried items and the location record\<close>

text \<open>The property of claim C9: an item is in the inventory exactly when its location
  record is the word "inventory".\<close>

definition carriedIff :: "GameState \<Rightarrow> bool" where
  "carriedIff s =
     (\<forall>i. i \<in> set (inventory s) \<longleftrightarrow> getItemLocation s i = Some ''inventory'')"

text \<open>What the engine maintains along with it: no item is carried twice, the location
  map has one entry for each key, and a player who carries something is not in a place
  called "inventory".\<close>

definition consistent :: "GameState \<Rightarrow> bool" where
  "consistent s =
     (distinct (inventory s) \<and> distinct (map fst (itemLocations s)) \<and> carriedIff s \<and>
      (inventory s \<noteq> [] \<longrightarrow> currentRoomId s \<noteq> ''inventory''))"

text \<open>A world whose only room is called "inventory".\<close>

definition exPocket :: content where
  "exPocket =
     \<lparr> c_rooms = [\<lparr> ident = ''inventory'', name = ''Pocket'', description = ''A pocket.'',
                     exits = None, lockedExits = None, items = Some [''sword''],
                     characters = None, features = None \<rparr>],
       c_items = [exSword], c_characters = [],
       c_commands = \<lparr> synonyms = Map.empty, directions = Map.empty \<rparr>,
       c_config = \<lparr> startingRoom = ''inventory'', title = ''Pocket'', introText = None,
                    objectives = None, victoryText = None \<rparr> \<rparr>"

text \<open>A state in which nothing is carried and no location record says "inventory".\<close>

definition fresh :: "GameState \<Rightarrow> bool" where
  "fresh s = (inventory s = [] \<and> distinct (map fst (itemLocations s)) \<and>
              (\<forall>i. getItemLocation s i \<noteq> Some ''inventory''))"

section \<open>Movement through locked exits\<close>

lemma stateOf_simps [simp]:
  "stateOf s (Inl e) = s"
  "stateOf s (Inr p) = fst p"
  by (simp_all add: stateOf_def split_beta)

lemma narrationOf_simps [simp]:
  "narrationOf (Inl e) = []"
  "narrationOf (Inr p) = snd p"
  by (simp_all add: narrationOf_def split_beta)

lemma checkUnlockCondition_iff:
  "checkUnlockCondition s li =
     ((\<forall>i. requiresItem li = Some i \<and> i \<noteq> [] \<longrightarrow> i \<in> set (inventory s)) \<and>
      (\<forall>f. requiresFlag li = Some f \<and> f \<noteq> [] \<longrightarrow> flagTruthy s f))"
  by (auto simp: checkUnlockCondition_def hasItem_def split: option.splits)

text \<open>A flag named like a member that the flag store inherits reads as truthy although
  nothing has set it.\<close>

lemma flagTruthy_inherited:
  "f \<in> set objectPrototypeKeys \<Longrightarrow> map_of (flags s) f = None \<Longrightarrow> flagTruthy s f"
  by (simp add: flagTruthy_def getFlag_def getProp_def)

lemma flagTruthy_own:
  "map_of (flags s) f = Some v \<Longrightarrow> flagTruthy s f = truthy v"
  by (simp add: flagTruthy_def getFlag_def getProp_def)

lemma flagTruthy_unset:
  "f \<notin> set objectPrototypeKeys \<Longrightarrow> map_of (flags s) f = None \<Longrightarrow> \<not> flagTruthy s f"
  by (simp add: flagTruthy_def getFlag_def getProp_def)

text \<open>
  Claim C1. The current room \<open>r\<close> has an exit in direction \<open>d\<close> and an entry for \<open>d\<close> in
  its locked-exits table, and the command asks to move in that direction. The unlock
  condition holds exactly when the required item, if one is specified, is in the inventory
  and the required flag, if one is specified, is truthy, that is, when what \<open>getFlag\<close>
  returns for it is truthy. When it does not hold, \<open>handleGo\<close> narrates the configured lock
  message (or the generic one) and returns the state as it was, so the current room and
  the visited set are unchanged. When it holds, \<open>handleGo\<close> returns and has narrated no
  lock warning, and when the target room is a room of the content the player is in the
  target room and the target room is added to the visited set.
\<close>

theorem locked_exit_gating:
  assumes "noun cmd = Some (Word n)" and "n \<noteq> []"
    and "getCurrentRoom c s = Some r"
    and "toText (resolveDirectionSynonym (toLowerCase n)) = d"
    and "lookupP (exits r) d = Own tgt" and "tgt \<noteq> []"
    and "lookupP (lockedExits r) d = Own li"
  shows "(checkUnlockCondition s li =
            ((\<forall>i. requiresItem li = Some i \<and> i \<noteq> [] \<longrightarrow> i \<in> set (inventory s)) \<and>
             (\<forall>f. requiresFlag li = Some f \<and> f \<noteq> [] \<longrightarrow>
                  (case getFlag s f of
                     Own v \<Rightarrow> truthy v
                   | Inherited k \<Rightarrow> True
                   | Undefined \<Rightarrow> False)))) \<and>
         (\<not> checkUnlockCondition s li \<longrightarrow>
            handleGo c cmd s =
              Inr (s, [DisplayWarning
                         (orElse (lock_message li) (''The way '' @ d @ '' is locked.''))])) \<and>
         (checkUnlockCondition s li \<longrightarrow>
            (\<exists>s' out. handleGo c cmd s = Inr (s', out) \<and>
               (\<forall>m. DisplayWarning m \<notin> set out) \<and>
               (roomsById c tgt \<noteq> None \<longrightarrow>
                  currentRoomId s' = tgt \<and>
                  visitedRooms s' = insert tgt (visitedRooms s))))"
proof (intro conjI impI)
  show "checkUnlockCondition s li =
            ((\<forall>i. requiresItem li = Some i \<and> i \<noteq> [] \<longrightarrow> i \<in> set (inventory s)) \<and>
             (\<forall>f. requiresFlag li = Some f \<and> f \<noteq> [] \<longrightarrow>
                  (case getFlag s f of
                     Own v \<Rightarrow> truthy v
                   | Inherited k \<Rightarrow> True
                   | Undefined \<Rightarrow> False)))"
    by (simp add: checkUnlockCondition_iff flagTruthy_def)
next
  assume "\<not> checkUnlockCondition s li"
  with assms show "handleGo c cmd s =
      Inr (s, [DisplayWarning (orElse (lock_message li) (''The way '' @ d @ '' is locked.''))])"
    by (simp add: handleGo_def Let_def)
next
  assume u: "checkUnlockCondition s li"
  show "\<exists>s' out. handleGo c cmd s = Inr (s', out) \<and>
               (\<forall>m. DisplayWarning m \<notin> set out) \<and>
               (roomsById c tgt \<noteq> None \<longrightarrow>
                  currentRoomId s' = tgt \<and>
                  visitedRooms s' = insert tgt (visitedRooms s))"
  proof (cases "roomsById c tgt")
    case None
    with assms u show ?thesis by (simp add: handleGo_def Let_def)
  next
    case (Some targetRoom)
    with assms u show ?thesis
      by (simp add: handleGo_def Let_def setCurrentRoom_def markRoomVisited_def
          displayRoomDescription_def)
  qed
qed

theorem locked_exit_gating_witness:
  "handleGo exWorld (mkCommand ''go'' (Some ''North'') None) exStart =
     Inr (exStart, [DisplayWarning ''The vault door is locked.'']) \<and>
   (\<exists>s' out. handleGo exWorld (mkCommand ''go'' (Some ''North'') None) exCarrying
                = Inr (s', out) \<and>
              (\<forall>m. DisplayWarning m \<notin> set out) \<and>
              currentRoomId s' = ''vault'' \<and> visitedRooms s' = {''vault''})"
proof -
  let ?cmd = "mkCommand ''go'' (Some ''North'') None"
  have h1: "noun ?cmd = Some (Word ''North'')" by code_simp
  have h2: "''North'' \<noteq> []" by simp
  have h3: "getCurrentRoom exWorld exStart = Some exBridge" by code_simp
  have h3': "getCurrentRoom exWorld exCarrying = Some exBridge" by code_simp
  have h4: "toText (resolveDirectionSynonym (toLowerCase ''North'')) = ''north''" by code_simp
  have h5: "lookupP (exits exBridge) ''north'' = Own ''vault''" by code_simp
  have h6: "''vault'' \<noteq> []" by simp
  have h7: "lookupP (lockedExits exBridge) ''north'' = Own exLock" by code_simp
  have l: "\<not> checkUnlockCondition exStart exLock" by code_simp
  have u: "checkUnlockCondition exCarrying exLock" by code_simp
  have r: "roomsById exWorld ''vault'' \<noteq> None" by code_simp
  have m: "orElse (lock_message exLock) (''The way '' @ ''north'' @ '' is locked.'')
             = ''The vault door is locked.''"
    by code_simp
  have v: "visitedRooms exCarrying = {}" by code_simp
  note A = locked_exit_gating[OF h1 h2 h3 h4 h5 h6 h7, THEN conjunct2, THEN conjunct1,
      rule_format, OF l]
  note B = locked_exit_gating[OF h1 h2 h3' h4 h5 h6 h7, THEN conjunct2, THEN conjunct2,
      rule_format, OF u]
  have a: "handleGo exWorld ?cmd exStart =
             Inr (exStart, [DisplayWarning ''The vault door is locked.''])"
    using A m by simp
  from B r v
  have b: "\<exists>s' out. handleGo exWorld ?cmd exCarrying = Inr (s', out) \<and>
              (\<forall>m. DisplayWarning m \<notin> set out) \<and>
              currentRoomId s' = ''vault'' \<and> visitedRooms s' = {''vault''}"
    by auto
  from a b show ?thesis by simp
qed

text \<open>A lock whose required flag is named \<open>constructor\<close> is open from the start: the flag
  store inherits a member of that name.\<close>

lemma inherited_flag_opens_lock:
  "checkUnlockCondition exStart
     \<lparr> requiresItem = None, requiresFlag = Some ''constructor'', lock_message = None \<rparr>"
  by code_simp

section \<open>Using an item that lies in the room\<close>

text \<open>
  Claim C7. A use command names an item that no carried item matches. When the name
  resolves among the items of the current room, \<open>handleUse\<close> narrates the warning
  "You need to pick up the ... first", which names the room item, and returns the state
  as it was. Only when the name resolves in neither place is the error
  "You don't have any ..." narrated.
\<close>

theorem use_item_in_room_pick_up_first:
  assumes "noun cmd = Some (Word n)" and "n \<noteq> []"
    and "findItemInInventory c s (toLowerCase n) = None"
  shows \<open>(\<forall>roomItem. findItemInRoom c s (toLowerCase n) = Some roomItem \<longrightarrow>
            handleUse c cmd s =
              Inr (s, [DisplayWarning
                         (''You need to pick up the '' @ name roomItem
                          @ '' first. Try "take '' @ toLowerCase (name roomItem) @ ''".'')])) \<and>
         (findItemInRoom c s (toLowerCase n) = None \<longrightarrow>
            handleUse c cmd s =
              Inr (s, [DisplayError (''You don't have any "'' @ n @ ''".'')]))\<close>
  using assms by (simp add: handleUse_def)

theorem use_item_in_room_pick_up_first_witness:
  \<open>handleUse exWorld (mkCommand ''use'' (Some ''sword'') None) exStart =
     Inr (exStart, [DisplayWarning ''You need to pick up the Sword first. Try "take sword".'']) \<and>
   handleUse exWorld (mkCommand ''use'' (Some ''lamp'') None) exStart =
     Inr (exStart, [DisplayError ''You don't have any "lamp".''])\<close>
proof -
  have h1: "noun (mkCommand ''use'' (Some ''sword'') None) = Some (Word ''sword'')" by code_simp
  have h3: "findItemInInventory exWorld exStart (toLowerCase ''sword'') = None" by code_simp
  have h4: "findItemInRoom exWorld exStart (toLowerCase ''sword'') = Some exSword"
    by code_simp
  have g1: "noun (mkCommand ''use'' (Some ''lamp'') None) = Some (Word ''lamp'')" by code_simp
  have g3: "findItemInInventory exWorld exStart (toLowerCase ''lamp'') = None" by code_simp
  have g4: "findItemInRoom exWorld exStart (toLowerCase ''lamp'') = None" by code_simp
  have n: "name exSword = ''Sword''" by code_simp
  have nl: "toLowerCase ''Sword'' = ''sword''" by code_simp
  from use_item_in_room_pick_up_first[OF h1 _ h3] h4 n nl
  have a: \<open>handleUse exWorld (mkCommand ''use'' (Some ''sword'') None) exStart =
     Inr (exStart, [DisplayWarning ''You need to pick up the Sword first. Try "take sword".''])\<close>
    by simp
  from use_item_in_room_pick_up_first[OF g1 _ g3] g4
  have b: \<open>handleUse exWorld (mkCommand ''use'' (Some ''lamp'') None) exStart =
     Inr (exStart, [DisplayError ''You don't have any "lamp".''])\<close>
    by simp
  from a b show ?thesis by simp
qed

section \<open>Entity resolution\<close>

lemma matchesName_modes:
  "matchesName e n \<longleftrightarrow> nameMatch e n \<or> idMatch e n \<or> substringMatch e n \<or> aliasMatch e n"
  by (simp add: matchesName_def nameMatch_def idMatch_def substringMatch_def aliasMatch_def)

lemma findByName_Some_iff:
  "findByName tbl n ids = Some e \<longleftrightarrow>
     (\<exists>pre i post. ids = pre @ i # post \<and> tbl i = Some e \<and> matchesName e n \<and>
        (\<forall>j\<in>set pre. \<forall>e'. tbl j = Some e' \<longrightarrow> \<not> matchesName e' n))"
proof (induction ids)
  case Nil
  then show ?case by simp
next
  case (Cons a ids)
  show ?case
  proof (cases "\<exists>e'. tbl a = Some e' \<and> matchesName e' n")
    case True
    then obtain e' where e': "tbl a = Some e'" "matchesName e' n" by blast
    have "findByName tbl n (a # ids) = Some e'" using e' by simp
    moreover have "(\<exists>pre i post. a # ids = pre @ i # post \<and> tbl i = Some e \<and> matchesName e n \<and>
        (\<forall>j\<in>set pre. \<forall>e'. tbl j = Some e' \<longrightarrow> \<not> matchesName e' n)) \<longleftrightarrow> e = e'"
    proof
      assume "\<exists>pre i post. a # ids = pre @ i # post \<and> tbl i = Some e \<and> matchesName e n \<and>
        (\<forall>j\<in>set pre. \<forall>e'. tbl j = Some e' \<longrightarrow> \<not> matchesName e' n)"
      then obtain pre i post where p: "a # ids = pre @ i # post" "tbl i = Some e" "matchesName e n"
        "\<forall>j\<in>set pre. \<forall>e'. tbl j = Some e' \<longrightarrow> \<not> matchesName e' n" by blast
      show "e = e'"
      proof (cases pre)
        case Nil
        with p e' show ?thesis by simp
      next
        case (Cons b pre')
        with p have "b = a" by simp
        with Cons p(4) e' show ?thesis by auto
      qed
    next
      assume "e = e'"
      then have "a # ids = [] @ a # ids \<and> tbl a = Some e \<and> matchesName e n \<and>
        (\<forall>j\<in>set []. \<forall>e'. tbl j = Some e' \<longrightarrow> \<not> matchesName e' n)" using e' by simp
      then show "\<exists>pre i post. a # ids = pre @ i # post \<and> tbl i = Some e \<and> matchesName e n \<and>
        (\<forall>j\<in>set pre. \<forall>e'. tbl j = Some e' \<longrightarrow> \<not> matchesName e' n)" by blast
    qed
    ultimately show ?thesis by auto
  next
    case False
    then have f: "findByName tbl n (a # ids) = findByName tbl n ids"
      by (auto split: option.splits)
    have "(\<exists>pre i post. a # ids = pre @ i # post \<and> tbl i = Some e \<and> matchesName e n \<and>
        (\<forall>j\<in>set pre. \<forall>e'. tbl j = Some e' \<longrightarrow> \<not> matchesName e' n)) \<longleftrightarrow>
       (\<exists>pre i post. ids = pre @ i # post \<and> tbl i = Some e \<and> matchesName e n \<and>
        (\<forall>j\<in>set pre. \<forall>e'. tbl j = Some e' \<longrightarrow> \<not> matchesName e' n))" (is "?L \<longleftrightarrow> ?R")
    proof
      assume ?L
      then obtain pre i post where p: "a # ids = pre @ i # post" "tbl i = Some e" "matchesName e n"
        "\<forall>j\<in>set pre. \<forall>e'. tbl j = Some e' \<longrightarrow> \<not> matchesName e' n" by blast
      show ?R
      proof (cases pre)
        case Nil
        with p False show ?thesis by auto
      next
        case (Cons b pre')
        with p have "ids = pre' @ i # post" "\<forall>j\<in>set pre'. \<forall>e'. tbl j = Some e' \<longrightarrow> \<not> matchesName e' n"
          by auto
        with p show ?thesis by blast
      qed
    next
      assume ?R
      then obtain pre i post where p: "ids = pre @ i # post" "tbl i = Some e" "matchesName e n"
        "\<forall>j\<in>set pre. \<forall>e'. tbl j = Some e' \<longrightarrow> \<not> matchesName e' n" by blast
      then have "a # ids = (a # pre) @ i # post \<and> tbl i = Some e \<and> matchesName e n \<and>
        (\<forall>j\<in>set (a # pre). \<forall>e'. tbl j = Some e' \<longrightarrow> \<not> matchesName e' n)"
        using False by auto
      then show ?L by blast
    qed
    with f Cons.IH show ?thesis by simp
  qed
qed

text \<open>
  Claim C2, as amended. Entity resolution returns the first candidate, in the order of the
  candidate list (the inventory, or the items located in the current room), whose entity
  exists and matches the search term in any of the four ways: exact name, identifier,
  search term contained in the name, alias. The four tests are tried in that order on one
  candidate, but they do not rank the candidates.
\<close>

theorem entity_resolution_first_candidate:
  "(findItemInInventory c s n = Some e \<longleftrightarrow>
      (\<exists>pre i post. getInventory s = pre @ i # post \<and> itemsById c i = Some e \<and>
         matchesName e n \<and>
         (\<forall>j\<in>set pre. \<forall>e'. itemsById c j = Some e' \<longrightarrow> \<not> matchesName e' n))) \<and>
   (findItemInRoom c s n = Some e \<longleftrightarrow>
      (\<exists>pre i post. state_getItemsInRoom s (getCurrentRoomId s) = pre @ i # post \<and>
         itemsById c i = Some e \<and> matchesName e n \<and>
         (\<forall>j\<in>set pre. \<forall>e'. itemsById c j = Some e' \<longrightarrow> \<not> matchesName e' n))) \<and>
   (\<forall>x. matchesName x n \<longleftrightarrow>
      nameMatch x n \<or> idMatch x n \<or> substringMatch x n \<or> aliasMatch x n)"
  unfolding findItemInInventory_def findItemInRoom_def
  using findByName_Some_iff[of "itemsById c" n _ e] matchesName_modes by blast

text \<open>
  The claim as stated fails: with the keycard picked up before the key, the search term
  "key" matches the key by its exact name and the keycard only because its name contains
  the term, and the keycard is returned.
\<close>

theorem entity_resolution_priority_counterexample:
  "getInventory exBoth = [''keycard'', ''key''] \<and>
   itemsById exWorld ''keycard'' = Some exKeycard \<and> itemsById exWorld ''key'' = Some exKey \<and>
   nameMatch exKey ''key'' \<and>
   \<not> nameMatch exKeycard ''key'' \<and> \<not> idMatch exKeycard ''key'' \<and>
   substringMatch exKeycard ''key'' \<and>
   findItemInInventory exWorld exBoth ''key'' = Some exKeycard \<and> exKeycard \<noteq> exKey"
  by code_simp

theorem entity_resolution_first_candidate_witness:
  "findItemInInventory exWorld exBoth ''key'' = Some exKeycard"
proof -
  have i: "getInventory exBoth = [] @ ''keycard'' # [''key'']" by code_simp
  have t: "itemsById exWorld ''keycard'' = Some exKeycard" by code_simp
  have m: "matchesName exKeycard ''key''" by code_simp
  from i t m have "\<exists>pre i post. getInventory exBoth = pre @ i # post \<and>
      itemsById exWorld i = Some exKeycard \<and> matchesName exKeycard ''key'' \<and>
      (\<forall>j\<in>set pre. \<forall>e'. itemsById exWorld j = Some e' \<longrightarrow> \<not> matchesName e' ''key'')"
    by (metis empty_iff list.set(1))
  with entity_resolution_first_candidate[of exWorld exBoth "''key''" exKeycard]
  show ?thesis by blast
qed

section \<open>Selecting a use-action\<close>

lemma find_first:
  "xs = pre @ a # post \<Longrightarrow> P a \<Longrightarrow> \<forall>b\<in>set pre. \<not> P b \<Longrightarrow> find P xs = Some a"
  by (induction pre arbitrary: xs) auto

text \<open>
  Claim C3. The use command names a carried item \<open>it\<close> whose list of use-actions is not
  empty. Without a target, the first action of the list that has no target is executed,
  whatever targeted actions precede it, and when every action has a target the player is
  asked for one and the state is returned as it was. With a target \<open>t\<close>, the first action
  whose configured target equals \<open>t\<close> up to letter case, or names an item or character
  that \<open>t\<close> matches, is executed; when no action matches, "Nothing happens ..." is
  narrated as a plain message and the state is returned as it was.
\<close>

theorem use_action_selection:
  assumes "noun cmd = Some (Word n)" and "n \<noteq> []"
    and "findItemInInventory c s (toLowerCase n) = Some it"
    and "useActions it = Some acts" and "acts \<noteq> []"
  shows \<open>(\<not> present (target cmd) \<longrightarrow>
            (\<forall>pre a post. acts = pre @ a # post \<and> \<not> present (ua_target a) \<and>
                 (\<forall>b\<in>set pre. present (ua_target b)) \<longrightarrow>
               handleUse c cmd s = Inr (executeUseAction c it a s)) \<and>
            ((\<forall>b\<in>set acts. present (ua_target b)) \<longrightarrow>
               handleUse c cmd s =
                 Inr (s, [DisplayError (''Use the '' @ name it @ '' on what? Try "use ''
                                    @ toLowerCase (name it) @ '' on <target>".'')]))) \<and>
         (\<forall>t. target cmd = Some t \<and> t \<noteq> [] \<longrightarrow>
            (\<forall>pre a post. acts = pre @ a # post \<and> targetMatches c (toLowerCase t) a \<and>
                 (\<forall>b\<in>set pre. \<not> targetMatches c (toLowerCase t) b) \<longrightarrow>
               handleUse c cmd s = Inr (executeUseAction c it a s)) \<and>
            ((\<forall>b\<in>set acts. \<not> targetMatches c (toLowerCase t) b) \<longrightarrow>
               handleUse c cmd s =
                 Inr (s, [DisplayMessage (''Nothing happens when you try to use the '' @ name it
                                      @ '' on '' @ t @ ''.'')]))) \<and>
         (\<forall>tn a. targetMatches c tn a \<longleftrightarrow>
            (\<exists>tg. ua_target a = Some tg \<and> tg \<noteq> [] \<and>
               (toLowerCase tg = tn \<or>
                (\<exists>i. itemsById c tg = Some i \<and> matchesName i tn) \<or>
                (\<exists>ch. charactersById c tg = Some ch \<and> matchesName ch tn))))\<close>
proof -
  obtain a0 as where acts: "acts = a0 # as" using assms(5) by (cases acts) auto
  have A: \<open>\<not> present (target cmd) \<Longrightarrow> acts = pre @ a # post \<Longrightarrow> \<not> present (ua_target a) \<Longrightarrow>
        \<forall>b\<in>set pre. present (ua_target b) \<Longrightarrow> handleUse c cmd s = Inr (executeUseAction c it a s)\<close>
    for pre a post
  proof -
    assume h: "\<not> present (target cmd)" "acts = pre @ a # post" "\<not> present (ua_target a)"
      "\<forall>b\<in>set pre. present (ua_target b)"
    have "find (\<lambda>action. \<not> present (ua_target action)) acts = Some a"
      using find_first[OF h(2), of "\<lambda>action. \<not> present (ua_target action)"] h(3,4) by simp
    then show ?thesis using assms h(1) acts by (simp add: handleUse_def)
  qed
  have B: \<open>\<not> present (target cmd) \<Longrightarrow> \<forall>b\<in>set acts. present (ua_target b) \<Longrightarrow>
     handleUse c cmd s =
                 Inr (s, [DisplayError (''Use the '' @ name it @ '' on what? Try "use ''
                                    @ toLowerCase (name it) @ '' on <target>".'')])\<close>
  proof -
    assume h: "\<not> present (target cmd)" "\<forall>b\<in>set acts. present (ua_target b)"
    have "find (\<lambda>action. \<not> present (ua_target action)) acts = None"
      using h(2) by (simp add: find_None_iff)
    then show ?thesis using assms h(1) acts by (simp add: handleUse_def)
  qed
  have C: \<open>target cmd = Some t \<Longrightarrow> t \<noteq> [] \<Longrightarrow> acts = pre @ a # post \<Longrightarrow>
      targetMatches c (toLowerCase t) a \<Longrightarrow> \<forall>b\<in>set pre. \<not> targetMatches c (toLowerCase t) b \<Longrightarrow>
      handleUse c cmd s = Inr (executeUseAction c it a s)\<close> for t pre a post
  proof -
    assume h: "target cmd = Some t" "t \<noteq> []" "acts = pre @ a # post"
      "targetMatches c (toLowerCase t) a" "\<forall>b\<in>set pre. \<not> targetMatches c (toLowerCase t) b"
    have "find (targetMatches c (toLowerCase t)) acts = Some a"
      using find_first[OF h(3), of "targetMatches c (toLowerCase t)"] h(4,5) by simp
    then show ?thesis using assms h(1,2) acts by (simp add: handleUse_def)
  qed
  have D: \<open>target cmd = Some t \<Longrightarrow> t \<noteq> [] \<Longrightarrow> \<forall>b\<in>set acts. \<not> targetMatches c (toLowerCase t) b \<Longrightarrow>
      handleUse c cmd s =
                 Inr (s, [DisplayMessage (''Nothing happens when you try to use the '' @ name it
                                      @ '' on '' @ t @ ''.'')])\<close> for t
  proof -
    assume h: "target cmd = Some t" "t \<noteq> []" "\<forall>b\<in>set acts. \<not> targetMatches c (toLowerCase t) b"
    have "find (targetMatches c (toLowerCase t)) acts = None"
      using h(3) by (simp add: find_None_iff)
    then show ?thesis using assms h(1,2) acts by (simp add: handleUse_def)
  qed
  have E: "targetMatches c tn a \<longleftrightarrow>
            (\<exists>tg. ua_target a = Some tg \<and> tg \<noteq> [] \<and>
               (toLowerCase tg = tn \<or>
                (\<exists>i. itemsById c tg = Some i \<and> matchesName i tn) \<or>
                (\<exists>ch. charactersById c tg = Some ch \<and> matchesName ch tn)))" for tn a
    by (auto simp: targetMatches_def matchesEntity_def split: option.splits)
  from A B C D E show ?thesis by blast
qed

theorem use_action_selection_witness:
  "handleUse exWorld (mkCommand ''use'' (Some ''keycard'') None) exCarrying =
     Inr (executeUseAction exWorld exKeycard exActWave exCarrying) \<and>
   handleUse exWorld (mkCommand ''use'' (Some ''keycard'') (Some ''Door'')) exCarrying =
     Inr (executeUseAction exWorld exKeycard exActDoor exCarrying) \<and>
   handleUse exWorld (mkCommand ''use'' (Some ''keycard'') (Some ''wall'')) exCarrying =
     Inr (exCarrying,
      [DisplayMessage ''Nothing happens when you try to use the Red Keycard on wall.''])"
proof -
  have f: "findItemInInventory exWorld exCarrying (toLowerCase ''keycard'') = Some exKeycard"
    by code_simp
  have u: "useActions exKeycard = Some [exActDoor, exActWave]" by code_simp
  have ne: "[exActDoor, exActWave] \<noteq> []" by simp
  have n1: "noun (mkCommand ''use'' (Some ''keycard'') None) = Some (Word ''keycard'')" by code_simp
  have n2: "noun (mkCommand ''use'' (Some ''keycard'') (Some ''Door'')) = Some (Word ''keycard'')"
    by code_simp
  have n3: "noun (mkCommand ''use'' (Some ''keycard'') (Some ''wall'')) = Some (Word ''keycard'')"
    by code_simp
  have k: "''keycard'' \<noteq> []" by simp
  have t1: "\<not> present (target (mkCommand ''use'' (Some ''keycard'') None))" by code_simp
  have t2: "target (mkCommand ''use'' (Some ''keycard'') (Some ''Door'')) = Some ''Door''"
    by code_simp
  have t3: "target (mkCommand ''use'' (Some ''keycard'') (Some ''wall'')) = Some ''wall''"
    by code_simp
  have p1: "\<not> present (ua_target exActWave)" by code_simp
  have p2: "\<forall>b\<in>set [exActDoor]. present (ua_target b)" by code_simp
  have m2: "targetMatches exWorld (toLowerCase ''Door'') exActDoor" by code_simp
  have m3: "\<forall>b\<in>set [exActDoor, exActWave]. \<not> targetMatches exWorld (toLowerCase ''wall'') b"
    by code_simp
  have nm: "''Nothing happens when you try to use the '' @ name exKeycard @ '' on ''
              @ ''wall'' @ ''.''
            = ''Nothing happens when you try to use the Red Keycard on wall.''"
    by code_simp
  note A = use_action_selection[OF n1 k f u ne, THEN conjunct1, rule_format, OF t1,
      THEN conjunct1, rule_format, of "[exActDoor]" exActWave "[]"]
  have a: "handleUse exWorld (mkCommand ''use'' (Some ''keycard'') None) exCarrying =
     Inr (executeUseAction exWorld exKeycard exActWave exCarrying)"
    by (rule A) (use p1 p2 in simp)
  note B = use_action_selection[OF n2 k f u ne, THEN conjunct2, THEN conjunct1, rule_format,
      of "''Door''", THEN conjunct1, rule_format, of "[]" exActDoor "[exActWave]"]
  have b: "handleUse exWorld (mkCommand ''use'' (Some ''keycard'') (Some ''Door'')) exCarrying =
     Inr (executeUseAction exWorld exKeycard exActDoor exCarrying)"
    by (rule B) (use t2 m2 in simp_all)
  note C = use_action_selection[OF n3 k f u ne, THEN conjunct2, THEN conjunct1, rule_format,
      of "''wall''", THEN conjunct2, rule_format]
  have "handleUse exWorld (mkCommand ''use'' (Some ''keycard'') (Some ''wall'')) exCarrying =
     Inr (exCarrying,
      [DisplayMessage (''Nothing happens when you try to use the '' @ name exKeycard
                       @ '' on '' @ ''wall'' @ ''.'')])"
    by (rule C) (use t3 m3 in auto)
  then have c: "handleUse exWorld (mkCommand ''use'' (Some ''keycard'') (Some ''wall'')) exCarrying =
     Inr (exCarrying,
      [DisplayMessage ''Nothing happens when you try to use the Red Keycard on wall.''])"
    unfolding nm .
  from a b c show ?thesis by blast
qed

section \<open>Items that are not listed\<close>






section \<open>Direction words\<close>

lemma byId_commands [simp]:
  "roomsById (c\<lparr>c_commands := k\<rparr>) = roomsById c"
  "itemsById (c\<lparr>c_commands := k\<rparr>) = itemsById c"
  "charactersById (c\<lparr>c_commands := k\<rparr>) = charactersById c"
  by (simp_all add: roomsById_def itemsById_def charactersById_def)

lemma helpers_commands [simp]:
  "getCurrentRoom (c\<lparr>c_commands := k\<rparr>) = getCurrentRoom c"
  "findItemInInventory (c\<lparr>c_commands := k\<rparr>) = findItemInInventory c"
  "findItemInRoom (c\<lparr>c_commands := k\<rparr>) = findItemInRoom c"
  "findCharacterInRoom (c\<lparr>c_commands := k\<rparr>) = findCharacterInRoom c"
  "matchesEntity (c\<lparr>c_commands := k\<rparr>) = matchesEntity c"
  "getItemsInRoom (c\<lparr>c_commands := k\<rparr>) = getItemsInRoom c"
  "getCharactersInRoom (c\<lparr>c_commands := k\<rparr>) = getCharactersInRoom c"
  by (simp_all add: fun_eq_iff getCurrentRoom_def findItemInInventory_def findItemInRoom_def
      findCharacterInRoom_def matchesEntity_def getItemsInRoom_def getCharactersInRoom_def
      cong: option.case_cong list.case_cong if_cong)

lemma effects_commands [simp]:
  "displayRoomDescription (c\<lparr>c_commands := k\<rparr>) = displayRoomDescription c"
  "executeUseAction (c\<lparr>c_commands := k\<rparr>) = executeUseAction c"
  "displayDialogueNode (c\<lparr>c_commands := k\<rparr>) = displayDialogueNode c"
  "targetMatches (c\<lparr>c_commands := k\<rparr>) = targetMatches c"
  by (simp_all add: fun_eq_iff displayRoomDescription_def executeUseAction_def
      displayDialogueNode_def targetMatches_def
      cong: option.case_cong list.case_cong if_cong)

lemma runDialogue_commands [simp]:
  "runDialogue (c\<lparr>c_commands := k\<rparr>) = runDialogue c"
  by (simp add: fun_eq_iff runDialogue_def cong: option.case_cong list.case_cong if_cong)

lemma handlers_commands [simp]:
  "handleExamine (c\<lparr>c_commands := k\<rparr>) = handleExamine c"
  "handleGo (c\<lparr>c_commands := k\<rparr>) = handleGo c"
  "handleTake (c\<lparr>c_commands := k\<rparr>) = handleTake c"
  "handleDrop (c\<lparr>c_commands := k\<rparr>) = handleDrop c"
  "handleInventory (c\<lparr>c_commands := k\<rparr>) = handleInventory c"
  "handleTalk (c\<lparr>c_commands := k\<rparr>) = handleTalk c"
  "handleUse (c\<lparr>c_commands := k\<rparr>) = handleUse c"
  "handleHelp (c\<lparr>c_commands := k\<rparr>) = handleHelp c"
  "handleQuit (c\<lparr>c_commands := k\<rparr>) = handleQuit c"
  by (simp_all add: fun_eq_iff handleExamine_def handleGo_def handleTake_def handleDrop_def
      handleInventory_def handleTalk_def handleUse_def handleHelp_def handleQuit_def
      cong: option.case_cong list.case_cong if_cong sum.case_cong jsword.case_cong
        lookup.case_cong)

lemma handleLook_commands [simp]:
  "handleLook (c\<lparr>c_commands := k\<rparr>) = handleLook c"
  by (simp add: fun_eq_iff handleLook_def cong: option.case_cong list.case_cong if_cong)

lemma runHandler_commands [simp]:
  "runHandler h (c\<lparr>c_commands := k\<rparr>) = runHandler h c"
  by (cases h) simp_all







text \<open>The word "constructor" names a member that both direction tables inherit. After
  "go", the parser makes that member the noun and \<open>handleGo\<close> throws; given as a noun to
  \<open>handleGo\<close>, the word is resolved to the member, whose text is no exit.\<close>

lemma inherited_direction_word:
  "execute exWorld (parse (c_commands exWorld) ''go constructor'') exStart = Inl TypeError \<and>
   handleGo exWorld (mkCommand ''go'' (Some ''constructor'') None) exStart =
     Inr (exStart,
          [DisplayError ''You can't go function Object() { [native code] } from here.'',
           DisplayMessage ''Available exits: east, north''])"
  by code_simp

section \<open>Synonyms, articles and letter case\<close>

subsection \<open>The handlers read the noun and the target only\<close>








subsection \<open>The parser works on the cleaned tokens\<close>









subsection \<open>The rules neither read nor write the input history\<close>

lemma putHistory_getters [simp]:
  "getCurrentRoomId (putHistory h i t s) = getCurrentRoomId s"
  "getInventory (putHistory h i t s) = getInventory s"
  "hasItem (putHistory h i t s) = hasItem s"
  "getItemLocation (putHistory h i t s) = getItemLocation s"
  "state_getItemsInRoom (putHistory h i t s) = state_getItemsInRoom s"
  "getFlag (putHistory h i t s) = getFlag s"
  "flagTruthy (putHistory h i t s) = flagTruthy s"
  "getDialogueState (putHistory h i t s) = getDialogueState s"
  by (simp_all add: fun_eq_iff putHistory_def getCurrentRoomId_def getInventory_def
      hasItem_def getItemLocation_def state_getItemsInRoom_def getFlag_def flagTruthy_def
      getDialogueState_def)

lemma putHistory_setters [simp]:
  "setCurrentRoom r (putHistory h i t s) = putHistory h i t (setCurrentRoom r s)"
  "markRoomVisited r (putHistory h i t s) = putHistory h i t (markRoomVisited r s)"
  "addItem x (putHistory h i t s) = putHistory h i t (addItem x s)"
  "snd (removeItem x (putHistory h i t s)) = putHistory h i t (snd (removeItem x s))"
  "setItemLocation x l (putHistory h i t s) = putHistory h i t (setItemLocation x l s)"
  "setFlag f v (putHistory h i t s) = putHistory h i t (setFlag f v s)"
  "setDialogueState ch n (putHistory h i t s) = putHistory h i t (setDialogueState ch n s)"
  by (auto simp: putHistory_def setCurrentRoom_def markRoomVisited_def addItem_def
      removeItem_def setItemLocation_def setFlag_def setDialogueState_def Let_def)

lemma putHistory_helpers [simp]:
  "getCurrentRoom c (putHistory h i t s) = getCurrentRoom c s"
  "findItemInInventory c (putHistory h i t s) = findItemInInventory c s"
  "findItemInRoom c (putHistory h i t s) = findItemInRoom c s"
  "findCharacterInRoom c (putHistory h i t s) = findCharacterInRoom c s"
  "getItemsInRoom c (putHistory h i t s) = getItemsInRoom c s"
  "checkUnlockCondition (putHistory h i t s) = checkUnlockCondition s"
  "displayRoomDescription c (putHistory h i t s) = displayRoomDescription c s"
  "displayItemDescription (putHistory h i t s) = displayItemDescription s"
  by (simp_all add: fun_eq_iff getCurrentRoom_def findItemInInventory_def findItemInRoom_def
      findCharacterInRoom_def getItemsInRoom_def checkUnlockCondition_def
      displayRoomDescription_def displayItemDescription_def
      cong: option.case_cong if_cong)

lemma putHistory_processEvent [simp]:
  "processEvent ev (putHistory h i t s) = apfst (putHistory h i t) (processEvent ev s)"
  by (simp add: processEvent_def Let_def split: option.splits)

lemma putHistory_executeUseAction [simp]:
  "executeUseAction c it a (putHistory h i t s) =
     apfst (putHistory h i t) (executeUseAction c it a s)"
  by (simp add: executeUseAction_def Let_def split: option.splits)

lemma putHistory_displayDialogueNode [simp]:
  "displayDialogueNode c ch n (putHistory h i t s) =
     apfst (putHistory h i t) (displayDialogueNode c ch n s)"
  by (simp add: displayDialogueNode_def Let_def split: option.splits)

lemma putHistory_runDialogue [simp]:
  "runDialogue c ch (putHistory h i t s) = apfst (putHistory h i t) (runDialogue c ch s)"
  by (simp add: runDialogue_def Let_def split: option.splits list.splits)












lemma withoutHistory_putHistory [simp]:
  "withoutHistory (putHistory h i t s) = withoutHistory s"
  by (simp add: withoutHistory_def putHistory_def)





subsection \<open>The three inputs\<close>




section \<open>Dialogue\<close>

subsection \<open>What the state operations leave alone\<close>

lemma dialogueState_ops [simp]:
  "characterDialogueState (setFlag f v s) = characterDialogueState s"
  "characterDialogueState (addItem g s) = characterDialogueState s"
  "characterDialogueState (snd (removeItem g s)) = characterDialogueState s"
  "characterDialogueState (setItemLocation g l s) = characterDialogueState s"
  "characterDialogueState (setCurrentRoom r s) = characterDialogueState s"
  "characterDialogueState (markRoomVisited r s) = characterDialogueState s"
  "characterDialogueState (addToHistory t s) = characterDialogueState s"
  by (simp_all add: setFlag_def addItem_def removeItem_def setItemLocation_def
      setCurrentRoom_def markRoomVisited_def addToHistory_def Let_def)

lemma dialogueState_processEvent [simp]:
  "characterDialogueState (fst (processEvent ev s)) = characterDialogueState s"
  by (simp add: processEvent_def Let_def split: option.splits)

lemma dialogueState_executeUseAction [simp]:
  "characterDialogueState (fst (executeUseAction c it a s)) = characterDialogueState s"
  by (simp add: executeUseAction_def Let_def split: option.splits)

lemma dialogueState_checkGameCompletion [simp]:
  "characterDialogueState (fst (checkGameCompletion c s)) = characterDialogueState s"
  by (simp add: checkGameCompletion_def split: option.splits)

lemma dialogueState_handlers [simp]:
  "characterDialogueState (stateOf s (handleExamine c cmd s)) = characterDialogueState s"
  "characterDialogueState (stateOf s (handleGo c cmd s)) = characterDialogueState s"
  "characterDialogueState (stateOf s (handleTake c cmd s)) = characterDialogueState s"
  "characterDialogueState (stateOf s (handleDrop c cmd s)) = characterDialogueState s"
  "characterDialogueState (stateOf s (handleInventory c cmd s)) = characterDialogueState s"
  "characterDialogueState (stateOf s (handleUse c cmd s)) = characterDialogueState s"
  "characterDialogueState (stateOf s (handleHelp c cmd s)) = characterDialogueState s"
  "characterDialogueState (stateOf s (handleQuit c cmd s)) = characterDialogueState s"
  by (simp_all add: handleExamine_def handleGo_def handleTake_def handleDrop_def
      handleInventory_def handleUse_def handleHelp_def handleQuit_def Let_def split_beta
      split: option.splits list.splits sum.splits jsword.splits lookup.splits)

lemma dialogueState_handleLook [simp]:
  "characterDialogueState (stateOf s (handleLook c cmd s)) = characterDialogueState s"
  by (simp add: handleLook_def Let_def split: option.splits)

subsection \<open>Lookup tables built from the content lists\<close>

lemma fold_upd_key:
  "fold (\<lambda>x m. m(key x \<mapsto> x)) xs m0 k = Some x \<Longrightarrow> m0 k = Some x \<or> key x = k"
proof (induction xs arbitrary: m0)
  case Nil
  then show ?case by simp
next
  case (Cons a xs)
  from Cons.prems have "fold (\<lambda>x m. m(key x \<mapsto> x)) xs (m0(key a \<mapsto> a)) k = Some x"
    by (simp del: fun_upd_apply)
  from Cons.IH[OF this] show ?case
    by (auto split: if_splits)
qed

lemma byId_key: "byId key xs k = Some x \<Longrightarrow> key x = k"
  using fold_upd_key[of key xs Map.empty k x] by (simp add: byId_def)

lemma findByName_in_table: "findByName tbl n ids = Some e \<Longrightarrow> \<exists>i. tbl i = Some e"
  by (induction ids) (auto split: option.splits if_splits)

lemma findCharacterInRoom_in_table:
  "findCharacterInRoom c s n = Some ch \<Longrightarrow> charactersById c (ident ch) = Some ch"
proof -
  assume "findCharacterInRoom c s n = Some ch"
  then obtain i where i: "charactersById c i = Some ch"
    by (auto simp: findCharacterInRoom_def split: option.splits dest: findByName_in_table)
  then have "ident ch = i" by (simp add: charactersById_def byId_key)
  with i show ?thesis by simp
qed

subsection \<open>The dialogue pointer\<close>

lemma getDialogueState_set:
  "getDialogueState (setDialogueState k v s) k' = (if k' = k then Some v else getDialogueState s k')"
  by (simp add: getDialogueState_def setDialogueState_def update_conv')

lemma getDialogueState_cong:
  "characterDialogueState s' = characterDialogueState s \<Longrightarrow>
   getDialogueState s' k = getDialogueState s k"
  by (simp add: getDialogueState_def)

lemma displayDialogueNode_other:
  "k \<noteq> ident ch' \<Longrightarrow> getDialogueState (fst (displayDialogueNode c ch' nd s)) k = getDialogueState s k"
  by (auto simp: displayDialogueNode_def Let_def getDialogueState_set
      intro!: getDialogueState_cong split: option.splits)

lemma runDialogue_other:
  "k \<noteq> ident ch' \<Longrightarrow> getDialogueState (fst (runDialogue c ch' s)) k = getDialogueState s k"
  by (simp add: runDialogue_def Let_def displayDialogueNode_other split: list.splits option.splits)

lemma find_distinct_id:
  "distinct (map node_id ds) \<Longrightarrow> node \<in> set ds \<Longrightarrow>
   find (\<lambda>n. node_id n = node_id node) ds = Some node"
  by (induction ds) (auto simp: image_iff)

lemma displayDialogueNode_loop:
  assumes "loop node = Some (node_id node)" and "node_id node \<noteq> []"
    and "\<not> present (nextNode node)"
  shows "getDialogueState (fst (displayDialogueNode c ch node s)) (ident ch) = Some (node_id node)"
    and "\<exists>rest. snd (displayDialogueNode c ch node s) =
            DisplayDialogue (name ch) (node_text node) # rest \<and>
            (\<forall>sp tx. DisplayDialogue sp tx \<notin> set rest)"
  using assms
  by (auto simp: displayDialogueNode_def Let_def getDialogueState_set split: option.splits)

lemma runDialogue_loop:
  assumes "dialogue ch = Some ds"
    and "find (\<lambda>n. node_id n = node_id node) ds = Some node"
    and "node_id node \<noteq> []"
    and "getDialogueState s (ident ch) = Some (node_id node)"
  shows "runDialogue c ch s = displayDialogueNode c ch node s"
proof -
  obtain d0 dr where ds: "ds = d0 # dr" using assms(2) by (cases ds) auto
  show ?thesis
    using assms ds by (simp add: runDialogue_def Let_def)
qed

lemma handleTalk_pointer:
  assumes "charactersById c (ident ch) = Some ch"
    and "dialogue ch = Some ds"
    and "find (\<lambda>n. node_id n = node_id node) ds = Some node"
    and "loop node = Some (node_id node)" and "node_id node \<noteq> []"
    and "\<not> present (nextNode node)"
    and "getDialogueState s (ident ch) = Some (node_id node)"
  shows "getDialogueState (stateOf s (handleTalk c cmd s)) (ident ch) = Some (node_id node)"
proof (cases "given (noun cmd)")
  case False
  then have "stateOf s (handleTalk c cmd s) = s"
    by (simp add: handleTalk_def split: option.splits)
  with assms(7) show ?thesis by simp
next
  case True
  show ?thesis
  proof (cases "lowerOf (noun cmd)")
    case (Inl e)
    with True have "stateOf s (handleTalk c cmd s) = s"
      by (simp add: handleTalk_def)
    with assms(7) show ?thesis by simp
  next
    case (Inr characterName)
    show ?thesis
    proof (cases "findCharacterInRoom c s characterName")
      case None
      with True Inr have "stateOf s (handleTalk c cmd s) = s"
        by (simp add: handleTalk_def)
      with assms(7) show ?thesis by simp
    next
      case (Some ch')
      with True Inr have t: "stateOf s (handleTalk c cmd s) = fst (runDialogue c ch' s)"
        by (simp add: handleTalk_def)
      show ?thesis
      proof (cases "ident ch' = ident ch")
        case True
        have "charactersById c (ident ch') = Some ch'"
          using Some by (rule findCharacterInRoom_in_table)
        with True assms(1) have "ch' = ch" by simp
        with t show ?thesis
          using runDialogue_loop[OF assms(2,3,5,7)] displayDialogueNode_loop(1)[OF assms(4-6)]
          by simp
      next
        case False
        then show ?thesis using t assms(7) by (simp add: runDialogue_other)
      qed
    qed
  qed
qed

lemma execute_pointer:
  assumes "charactersById c (ident ch) = Some ch"
    and "dialogue ch = Some ds"
    and "find (\<lambda>n. node_id n = node_id node) ds = Some node"
    and "loop node = Some (node_id node)" and "node_id node \<noteq> []"
    and "\<not> present (nextNode node)"
    and "getDialogueState s (ident ch) = Some (node_id node)"
  shows "getDialogueState (stateOf s (execute c cmd s)) (ident ch) = Some (node_id node)"
proof -
  have other: "characterDialogueState (stateOf s (runHandler h c cmd s)) = characterDialogueState s"
    if "h \<noteq> HTalk" for h
    using that by (cases h) simp_all
  have "getDialogueState (stateOf s (runHandler h c cmd s)) (ident ch) = Some (node_id node)" for h
  proof (cases "h = HTalk")
    case True
    then show ?thesis using handleTalk_pointer[OF assms] by simp
  next
    case False
    then show ?thesis using other[OF False] assms(7) by (simp add: getDialogueState_def)
  qed
  moreover have "getDialogueState (stateOf s (handleGo c cmd' s)) (ident ch) = Some (node_id node)"
    for cmd'
    using assms(7) by (simp add: getDialogueState_def)
  moreover have "getDialogueState (stateOf s (Inl e)) (ident ch) = Some (node_id node)"
    "getDialogueState (stateOf s (Inr (s, out))) (ident ch) = Some (node_id node)" for e out
    using assms(7) by simp_all
  ultimately show ?thesis
    by (simp add: execute_def split: jsword.splits lookup.splits)
qed

lemma executeCommand_pointer:
  assumes "charactersById c (ident ch) = Some ch"
    and "dialogue ch = Some ds"
    and "find (\<lambda>n. node_id n = node_id node) ds = Some node"
    and "loop node = Some (node_id node)" and "node_id node \<noteq> []"
    and "\<not> present (nextNode node)"
    and "getDialogueState s (ident ch) = Some (node_id node)"
  shows "getDialogueState (fst (executeCommand c t s)) (ident ch) = Some (node_id node)"
proof -
  have a: "getDialogueState (addToHistory t s) (ident ch) = Some (node_id node)"
    using assms(7) by (simp add: getDialogueState_def)
  have e: "getDialogueState (stateOf (addToHistory t s)
            (execute c (parse (c_commands c) t) (addToHistory t s))) (ident ch)
          = Some (node_id node)"
    by (rule execute_pointer[OF assms(1-6) a])
  show ?thesis
  proof (cases "execute c (parse (c_commands c) t) (addToHistory t s)")
    case (Inl err)
    then show ?thesis using a by (simp add: executeCommand_def Let_def)
  next
    case (Inr p)
    with e have "getDialogueState (fst p) (ident ch) = Some (node_id node)" by simp
    then have "getDialogueState (fst (checkGameCompletion c (fst p))) (ident ch)
                 = Some (node_id node)"
      by (simp add: getDialogueState_def)
    with Inr show ?thesis by (simp add: executeCommand_def Let_def split_beta)
  qed
qed

lemma runCommands_pointer:
  assumes "charactersById c (ident ch) = Some ch"
    and "dialogue ch = Some ds"
    and "find (\<lambda>n. node_id n = node_id node) ds = Some node"
    and "loop node = Some (node_id node)" and "node_id node \<noteq> []"
    and "\<not> present (nextNode node)"
  shows "getDialogueState s (ident ch) = Some (node_id node) \<Longrightarrow>
         getDialogueState (fst (runCommands c ts s)) (ident ch) = Some (node_id node)"
proof (induction ts arbitrary: s)
  case Nil
  then show ?case by simp
next
  case (Cons t ts)
  have "getDialogueState (fst (executeCommand c t s)) (ident ch) = Some (node_id node)"
    by (rule executeCommand_pointer[OF assms Cons.prems])
  from Cons.IH[OF this] show ?case
    by (simp add: Let_def split_beta)
qed

text \<open>
  Claim C4, as amended. The character \<open>ch\<close> is the character that the content holds under
  its identifier. One node of its dialogue list is the first of the list to carry its
  identifier, has no next-node pointer and has a loop pointer equal to its own, non-empty,
  identifier, and the stored dialogue pointer of \<open>ch\<close> equals that identifier. Then, after
  any sequence of commands, the stored pointer still equals it, and a talk command that
  resolves to \<open>ch\<close> narrates first the text of that node, attributed to \<open>ch\<close>, no other
  dialogue line, and leaves the pointer where it was. Node identifiers that are distinct
  within the character make every node the first to carry its identifier.
\<close>

theorem dialogue_loop_never_advances:
  assumes "charactersById c (ident ch) = Some ch"
    and "dialogue ch = Some ds"
    and "find (\<lambda>n. node_id n = node_id node) ds = Some node"
    and "loop node = Some (node_id node)" and "node_id node \<noteq> []"
    and "\<not> present (nextNode node)"
    and "getDialogueState s (ident ch) = Some (node_id node)"
  shows "(\<forall>ts. getDialogueState (fst (runCommands c ts s)) (ident ch) = Some (node_id node) \<and>
           (\<forall>(cmd::command) n. noun cmd = Some (Word n) \<and> n \<noteq> [] \<and>
                findCharacterInRoom c (fst (runCommands c ts s)) (toLowerCase n) = Some ch \<longrightarrow>
              (\<exists>s' rest. handleTalk c cmd (fst (runCommands c ts s)) =
                           Inr (s', DisplayDialogue (name ch) (node_text node) # rest) \<and>
                         (\<forall>sp tx. DisplayDialogue sp tx \<notin> set rest) \<and>
                         getDialogueState s' (ident ch) = Some (node_id node)))) \<and>
         (\<forall>(ds'::dialogueNode list) node'. distinct (map node_id ds') \<and> node' \<in> set ds' \<longrightarrow>
            find (\<lambda>n. node_id n = node_id node') ds' = Some node')"
proof (intro allI conjI impI)
  fix ts
  show p: "getDialogueState (fst (runCommands c ts s)) (ident ch) = Some (node_id node)"
    by (rule runCommands_pointer[OF assms])
  fix cmd :: command and n
  assume h: "noun cmd = Some (Word n) \<and> n \<noteq> [] \<and>
      findCharacterInRoom c (fst (runCommands c ts s)) (toLowerCase n) = Some ch"
  let ?s = "fst (runCommands c ts s)"
  have t: "handleTalk c cmd ?s = Inr (displayDialogueNode c ch node ?s)"
    using h runDialogue_loop[OF assms(2,3,5) p] by (simp add: handleTalk_def)
  obtain rest where r: "snd (displayDialogueNode c ch node ?s) =
            DisplayDialogue (name ch) (node_text node) # rest"
            "\<forall>sp tx. DisplayDialogue sp tx \<notin> set rest"
    using displayDialogueNode_loop(2)[OF assms(4-6)] by blast
  have g: "getDialogueState (fst (displayDialogueNode c ch node ?s)) (ident ch)
             = Some (node_id node)"
    by (rule displayDialogueNode_loop(1)[OF assms(4-6)])
  have "handleTalk c cmd ?s =
          Inr (fst (displayDialogueNode c ch node ?s),
               DisplayDialogue (name ch) (node_text node) # rest)"
    unfolding t using r(1) by (simp add: prod_eq_iff)
  with r(2) g
  show "\<exists>s' rest. handleTalk c cmd ?s =
                           Inr (s', DisplayDialogue (name ch) (node_text node) # rest) \<and>
                         (\<forall>sp tx. DisplayDialogue sp tx \<notin> set rest) \<and>
                         getDialogueState s' (ident ch) = Some (node_id node)"
    by blast
next
  fix ds' :: "dialogueNode list" and node'
  assume "distinct (map node_id ds') \<and> node' \<in> set ds'"
  then show "find (\<lambda>n. node_id n = node_id node') ds' = Some node'"
    by (simp add: find_distinct_id)
qed

text \<open>
  The claim as stated fails for a character two of whose nodes carry the same identifier.
  The twin's second node has no next-node pointer and loops on itself, and after two
  talks the stored pointer equals its identifier; the next talk narrates the text of the
  first node, which carries that identifier too, and moves the pointer on.
\<close>

theorem duplicate_node_id_counterexample:
  "dialogue exTwin = Some [exFirst, exSecond, exThird] \<and>
   loop exSecond = Some (node_id exSecond) \<and> \<not> present (nextNode exSecond) \<and>
   getDialogueState exTwice ''twin'' = Some (node_id exSecond) \<and>
   fst (snd (executeCommand exTwins ''talk twin'' exTwice)) =
     [DisplayCommand ''talk twin'', DisplayDialogue ''Twin'' ''First.'', UpdateStatusPanel] \<and>
   getDialogueState (fst (executeCommand exTwins ''talk twin'' exTwice)) ''twin'' = Some ''c''"
  by code_simp

theorem dialogue_loop_never_advances_witness:
  "getDialogueState (fst (runCommands exWorld [''talk guard'', ''look''] exTalked)) ''guard''
     = Some ''ready'' \<and>
   (\<exists>s' rest. handleTalk exWorld (mkCommand ''talk'' (Some ''Guard'') None)
                 (fst (runCommands exWorld [''talk guard'', ''look''] exTalked))
               = Inr (s', DisplayDialogue ''Guard'' ''Move along.'' # rest) \<and>
               getDialogueState s' ''guard'' = Some ''ready'')"
proof -
  let ?s = "fst (runCommands exWorld [''talk guard'', ''look''] exTalked)"
  let ?cmd = "mkCommand ''talk'' (Some ''Guard'') None"
  have h1: "charactersById exWorld (ident exGuard) = Some exGuard" by code_simp
  have h2: "dialogue exGuard = Some [exGreet, exReady]" by code_simp
  have h3: "find (\<lambda>n. node_id n = node_id exReady) [exGreet, exReady] = Some exReady"
    by code_simp
  have h5: "loop exReady = Some (node_id exReady)" by code_simp
  have h6: "node_id exReady \<noteq> []" by code_simp
  have h7: "\<not> present (nextNode exReady)" by code_simp
  have h8: "getDialogueState exTalked (ident exGuard) = Some (node_id exReady)" by code_simp
  have n: "noun ?cmd = Some (Word ''Guard'') \<and> ''Guard'' \<noteq> [] \<and>
           findCharacterInRoom exWorld ?s (toLowerCase ''Guard'') = Some exGuard"
    by code_simp
  have e: "ident exGuard = ''guard''" "node_id exReady = ''ready''" "name exGuard = ''Guard''"
    "node_text exReady = ''Move along.''"
    by code_simp+
  note T = dialogue_loop_never_advances[OF h1 h2 h3 h5 h6 h7 h8, THEN conjunct1, rule_format,
      of "[''talk guard'', ''look'']"]
  from T[THEN conjunct1] e have a: "getDialogueState ?s ''guard'' = Some ''ready''" by simp
  from T[THEN conjunct2, rule_format, OF n] e
  have b: "\<exists>s' rest. handleTalk exWorld ?cmd ?s
               = Inr (s', DisplayDialogue ''Guard'' ''Move along.'' # rest) \<and>
               getDialogueState s' ''guard'' = Some ''ready''"
    by auto
  from a b show ?thesis by blast
qed

section \<open>Completion of the objectives\<close>

subsection \<open>Flags once truthy stay truthy\<close>

lemma flags_ops [simp]:
  "flags (addItem g s) = flags s"
  "flags (snd (removeItem g s)) = flags s"
  "flags (setItemLocation g l s) = flags s"
  "flags (setCurrentRoom r s) = flags s"
  "flags (markRoomVisited r s) = flags s"
  "flags (addToHistory t s) = flags s"
  "flags (setDialogueState k v s) = flags s"
  by (simp_all add: addItem_def removeItem_def setItemLocation_def setDialogueState_def
      setCurrentRoom_def markRoomVisited_def addToHistory_def Let_def)

lemma flagTruthy_cong: "flags s' = flags s \<Longrightarrow> flagTruthy s' f = flagTruthy s f"
  by (simp add: flagTruthy_def getFlag_def)

lemma flagTruthy_setFlag:
  "flagTruthy (setFlag f' (JBool True) s) f = (f = f' \<or> flagTruthy s f)"
  by (auto simp: flagTruthy_def getFlag_def getProp_def setFlag_def update_conv'
      objectPrototypeKeys_def split: option.splits)

lemma flagTruthy_ops [simp]:
  "flagTruthy (addItem g s) f = flagTruthy s f"
  "flagTruthy (snd (removeItem g s)) f = flagTruthy s f"
  "flagTruthy (setItemLocation g l s) f = flagTruthy s f"
  "flagTruthy (setCurrentRoom r s) f = flagTruthy s f"
  "flagTruthy (markRoomVisited r s) f = flagTruthy s f"
  "flagTruthy (addToHistory t s) f = flagTruthy s f"
  "flagTruthy (setDialogueState k v s) f = flagTruthy s f"
  by (rule flagTruthy_cong, simp)+

lemma flagTruthy_effects:
  assumes "flagTruthy s f"
  shows "flagTruthy (fst (processEvent ev s)) f"
    and "flagTruthy (fst (executeUseAction c it a s)) f"
    and "flagTruthy (fst (displayDialogueNode c ch nd s)) f"
  using assms
  by (simp_all add: processEvent_def executeUseAction_def displayDialogueNode_def Let_def
      flagTruthy_setFlag split: option.splits)

lemma flagTruthy_runDialogue:
  "flagTruthy s f \<Longrightarrow> flagTruthy (fst (runDialogue c ch s)) f"
  by (simp add: runDialogue_def Let_def flagTruthy_effects split: list.splits option.splits)

lemma flagTruthy_handlers:
  assumes "flagTruthy s f"
  shows "flagTruthy (stateOf s (handleExamine c cmd s)) f"
    and "flagTruthy (stateOf s (handleGo c cmd s)) f"
    and "flagTruthy (stateOf s (handleTake c cmd s)) f"
    and "flagTruthy (stateOf s (handleDrop c cmd s)) f"
    and "flagTruthy (stateOf s (handleInventory c cmd s)) f"
    and "flagTruthy (stateOf s (handleTalk c cmd s)) f"
    and "flagTruthy (stateOf s (handleUse c cmd s)) f"
    and "flagTruthy (stateOf s (handleHelp c cmd s)) f"
    and "flagTruthy (stateOf s (handleQuit c cmd s)) f"
  using assms
  by (simp_all add: handleExamine_def handleGo_def handleTake_def handleDrop_def
      handleInventory_def handleTalk_def handleUse_def handleHelp_def handleQuit_def Let_def
      split_beta flagTruthy_effects flagTruthy_runDialogue
      split: option.splits list.splits sum.splits jsword.splits lookup.splits)

lemma flagTruthy_execute:
  assumes "flagTruthy s f"
  shows "flagTruthy (stateOf s (execute c cmd s)) f"
proof -
  have "flagTruthy (stateOf s (runHandler h c cmd s)) f" for h
    using flagTruthy_handlers[OF assms] assms
    by (cases h) (simp_all add: handleLook_def Let_def split: option.splits)
  then show ?thesis
    using assms flagTruthy_handlers(2)[OF assms]
    by (simp add: execute_def split: jsword.splits lookup.splits)
qed

subsection \<open>Only the completion check narrates victory\<close>

lemma victories_simps [simp]:
  "victories [] = 0"
  "victories (x # xs) = (if isVictory x then 1 else 0) + victories xs"
  "victories (xs @ ys) = victories xs + victories ys"
  by (simp_all add: victories_def)

lemma victories_effects [simp]:
  "victories (snd (processEvent ev s)) = 0"
  "victories (snd (executeUseAction c it a s)) = 0"
  "victories (snd (displayDialogueNode c ch nd s)) = 0"
  "victories (displayRoomDescription c s r) = 0"
  "victories (displayItemDescription s it) = 0"
  "victories (displayCharacterDescription ch) = 0"
  "victories (showAvailableExits r) = 0"
  by (simp_all add: processEvent_def executeUseAction_def displayDialogueNode_def Let_def
      displayRoomDescription_def displayItemDescription_def displayCharacterDescription_def
      showAvailableExits_def split: option.splits)

lemma victories_runDialogue [simp]: "victories (snd (runDialogue c ch s)) = 0"
  by (simp add: runDialogue_def Let_def split: list.splits option.splits)

lemma victories_handlers [simp]:
  "victories (narrationOf (handleExamine c cmd s)) = 0"
  "victories (narrationOf (handleGo c cmd s)) = 0"
  "victories (narrationOf (handleTake c cmd s)) = 0"
  "victories (narrationOf (handleDrop c cmd s)) = 0"
  "victories (narrationOf (handleInventory c cmd s)) = 0"
  "victories (narrationOf (handleTalk c cmd s)) = 0"
  "victories (narrationOf (handleUse c cmd s)) = 0"
  "victories (narrationOf (handleHelp c cmd s)) = 0"
  "victories (narrationOf (handleQuit c cmd s)) = 0"
  by (simp_all add: handleExamine_def handleGo_def handleTake_def handleDrop_def
      handleInventory_def handleTalk_def handleUse_def handleHelp_def handleQuit_def Let_def
      split_beta split: option.splits list.splits sum.splits jsword.splits lookup.splits)

lemma victories_execute [simp]: "victories (narrationOf (execute c cmd s)) = 0"
proof -
  have "victories (narrationOf (runHandler h c cmd s)) = 0" for h
    by (cases h) (simp_all add: handleLook_def Let_def split: option.splits)
  then show ?thesis by (simp add: execute_def split: jsword.splits lookup.splits)
qed

lemma checkGameCompletion_victories:
  "victories (snd (checkGameCompletion c s)) =
     (if \<not> flagTruthy s ''gameCompleted'' \<and> objectivesComplete c s then 1 else 0)"
  by (simp add: checkGameCompletion_def objectivesComplete_def split: option.splits)

lemma checkGameCompletion_flag:
  "flagTruthy (fst (checkGameCompletion c s)) ''gameCompleted'' =
     (flagTruthy s ''gameCompleted'' \<or> objectivesComplete c s)"
  by (auto simp: checkGameCompletion_def objectivesComplete_def flagTruthy_setFlag
      split: option.splits)

lemma executeCommand_throws:
  assumes "afterRules c t s = Inl e"
  shows "executeCommand c t s =
           (addToHistory t s,
            if toLowerCase t \<noteq> ''look'' \<or> length (commandHistory s) > 0
            then [DisplayCommand t] else [],
            Some e)"
  using assms by (simp add: executeCommand_def afterRules_def Let_def)

lemma executeCommand_returns:
  assumes "afterRules c t s = Inr (s2, o2)"
  shows "fst (executeCommand c t s) = fst (checkGameCompletion c s2)"
    and "victories (fst (snd (executeCommand c t s))) = victories (snd (checkGameCompletion c s2))"
    and "snd (snd (executeCommand c t s)) = None"
proof -
  have "victories (narrationOf (afterRules c t s)) = 0"
    by (simp add: afterRules_def)
  with assms have "victories o2 = 0" by simp
  with assms show "fst (executeCommand c t s) = fst (checkGameCompletion c s2)"
    and "victories (fst (snd (executeCommand c t s))) = victories (snd (checkGameCompletion c s2))"
    and "snd (snd (executeCommand c t s)) = None"
    by (simp_all add: executeCommand_def afterRules_def Let_def split_beta)
qed

lemma executeCommand_victories:
  "victories (fst (snd (executeCommand c t s))) =
     (case afterRules c t s of
        Inl e \<Rightarrow> 0
      | Inr (s2, o2) \<Rightarrow>
          if \<not> flagTruthy s2 ''gameCompleted'' \<and> objectivesComplete c s2 then 1 else 0)"
proof (cases "afterRules c t s")
  case (Inl e)
  then show ?thesis by (simp add: executeCommand_throws)
next
  case (Inr p)
  then have "afterRules c t s = Inr (fst p, snd p)" by simp
  from executeCommand_returns(2)[OF this] Inr show ?thesis
    by (simp add: checkGameCompletion_victories split_beta)
qed

lemma executeCommand_latched:
  assumes "flagTruthy s ''gameCompleted''"
  shows "flagTruthy (fst (executeCommand c t s)) ''gameCompleted''"
    and "victories (fst (snd (executeCommand c t s))) = 0"
proof -
  have a: "flagTruthy (stateOf (addToHistory t s) (afterRules c t s)) ''gameCompleted''"
    unfolding afterRules_def by (rule flagTruthy_execute) (simp add: assms)
  show "flagTruthy (fst (executeCommand c t s)) ''gameCompleted''"
  proof (cases "afterRules c t s")
    case (Inl e)
    then show ?thesis using assms by (simp add: executeCommand_throws)
  next
    case (Inr p)
    then have "afterRules c t s = Inr (fst p, snd p)" by simp
    from executeCommand_returns(1)[OF this] a Inr show ?thesis
      by (simp add: checkGameCompletion_flag)
  qed
  show "victories (fst (snd (executeCommand c t s))) = 0"
    using a by (cases "afterRules c t s") (simp_all add: executeCommand_victories split_beta)
qed

lemma runCommands_latched:
  "flagTruthy s ''gameCompleted'' \<Longrightarrow>
   flagTruthy (fst (runCommands c ts s)) ''gameCompleted'' \<and>
   (\<forall>out\<in>set (snd (runCommands c ts s)). victories (fst out) = 0)"
proof (induction ts arbitrary: s)
  case Nil
  then show ?case by simp
next
  case (Cons t ts)
  have b: "flagTruthy (fst (executeCommand c t s)) ''gameCompleted''"
    and v: "victories (fst (snd (executeCommand c t s))) = 0"
    using executeCommand_latched[OF Cons.prems] by simp_all
  from Cons.IH[OF b] v show ?case
    by (simp add: Let_def split_beta)
qed

lemma runCommands_at_most_once:
  "sum_list (map (\<lambda>out. victories (fst out)) (snd (runCommands c ts s))) \<le> 1"
proof (induction ts arbitrary: s)
  case Nil
  then show ?case by simp
next
  case (Cons t ts)
  let ?s1 = "fst (executeCommand c t s)"
  show ?case
  proof (cases "victories (fst (snd (executeCommand c t s))) = 0")
    case True
    with Cons.IH[of ?s1] show ?thesis by (simp add: Let_def split_beta)
  next
    case False
    then obtain s2 o2 where r: "afterRules c t s = Inr (s2, o2)"
      and oc: "objectivesComplete c s2"
      by (auto simp: executeCommand_victories split: sum.splits if_splits)
    from False r have one: "victories (fst (snd (executeCommand c t s))) = 1"
      by (simp add: executeCommand_victories split: if_splits)
    have "flagTruthy ?s1 ''gameCompleted''"
      using executeCommand_returns(1)[OF r] oc by (simp add: checkGameCompletion_flag)
    from runCommands_latched[OF this, of c ts]
    have "sum_list (map (\<lambda>out. victories (fst out)) (snd (runCommands c ts ?s1))) = 0"
      by simp
    with one show ?thesis by (simp add: Let_def split_beta)
  qed
qed

text \<open>
  Claim C5, as amended. A command whose handler throws narrates no victory and leaves the
  state as it was but for the history. A command whose handler returns narrates victory
  exactly once if, in the state the handler leaves, objectives are configured, the flag of
  every objective is truthy and the flag \<open>gameCompleted\<close> is not yet truthy; otherwise it
  narrates no victory. Whenever the objectives are complete in the state the handler
  leaves, \<open>gameCompleted\<close> is truthy after the command. Once \<open>gameCompleted\<close> is truthy it
  stays truthy and no later command narrates victory. Hence the commands of any session
  narrate victory at most once in total. A flag is truthy when what \<open>getFlag\<close> returns for
  it is.
\<close>

theorem victory_narrated_once:
  "(\<forall>t. (\<forall>e. afterRules c t s = Inl e \<longrightarrow>
             victories (fst (snd (executeCommand c t s))) = 0 \<and>
             fst (executeCommand c t s) = addToHistory t s) \<and>
        (\<forall>s2 o2. afterRules c t s = Inr (s2, o2) \<longrightarrow>
             victories (fst (snd (executeCommand c t s))) =
               (if \<not> flagTruthy s2 ''gameCompleted'' \<and> objectivesComplete c s2
                then 1 else 0) \<and>
             (objectivesComplete c s2 \<longrightarrow>
                flagTruthy (fst (executeCommand c t s)) ''gameCompleted''))) \<and>
   (flagTruthy s ''gameCompleted'' \<longrightarrow>
      (\<forall>ts. flagTruthy (fst (runCommands c ts s)) ''gameCompleted'' \<and>
            (\<forall>out\<in>set (snd (runCommands c ts s)). victories (fst out) = 0))) \<and>
   (\<forall>ts. sum_list (map (\<lambda>out. victories (fst out)) (snd (runCommands c ts s))) \<le> 1) \<and>
   (\<forall>f. flagTruthy s f =
      (case getFlag s f of Own v \<Rightarrow> truthy v | Inherited k \<Rightarrow> True | Undefined \<Rightarrow> False))"
proof (intro conjI allI impI)
  fix t e
  assume "afterRules c t s = Inl e"
  then show "victories (fst (snd (executeCommand c t s))) = 0"
    and "fst (executeCommand c t s) = addToHistory t s"
    by (simp_all add: executeCommand_throws)
next
  fix t s2 o2
  assume r: "afterRules c t s = Inr (s2, o2)"
  then show "victories (fst (snd (executeCommand c t s))) =
               (if \<not> flagTruthy s2 ''gameCompleted'' \<and> objectivesComplete c s2
                then 1 else 0)"
    by (simp add: executeCommand_victories)
  assume "objectivesComplete c s2"
  then show "flagTruthy (fst (executeCommand c t s)) ''gameCompleted''"
    using executeCommand_returns(1)[OF r] by (simp add: checkGameCompletion_flag)
next
  fix ts
  assume "flagTruthy s ''gameCompleted''"
  then show "flagTruthy (fst (runCommands c ts s)) ''gameCompleted''"
    and "\<forall>out\<in>set (snd (runCommands c ts s)). victories (fst out) = 0"
    using runCommands_latched by blast+
next
  fix ts
  show "sum_list (map (\<lambda>out. victories (fst out)) (snd (runCommands c ts s))) \<le> 1"
    by (rule runCommands_at_most_once)
next
  fix f
  show "flagTruthy s f =
      (case getFlag s f of Own v \<Rightarrow> truthy v | Inherited k \<Rightarrow> True | Undefined \<Rightarrow> False)"
    by (simp add: flagTruthy_def)
qed

text \<open>
  The claim as stated fails when the content itself sets the flag \<open>gameCompleted\<close>: taking
  the trophy sets it, so that the command after which the only objective is complete for
  the first time ("use keycard") narrates no victory, and neither does any other command.
\<close>

theorem victory_missed_counterexample:
  "\<not> objectivesComplete exWorld
       (fst (runCommands exWorld [''take trophy'', ''take keycard''] exStart)) \<and>
   objectivesComplete exWorld
     (fst (runCommands exWorld [''take trophy'', ''take keycard'', ''use keycard''] exStart)) \<and>
   map (\<lambda>out. victories (fst out))
     (snd (runCommands exWorld [''take trophy'', ''take keycard'', ''use keycard'', ''look'']
             exStart)) = [0, 0, 0, 0] \<and>
   map snd
     (snd (runCommands exWorld [''take trophy'', ''take keycard'', ''use keycard'', ''look'']
             exStart)) = [None, None, None, None]"
  by code_simp

theorem victory_narrated_once_witness:
  "victories (fst (snd (executeCommand exWorld ''use keycard'' exCarrying))) = 1 \<and>
   flagTruthy (fst (executeCommand exWorld ''use keycard'' exCarrying)) ''gameCompleted'' \<and>
   victories (fst (snd (executeCommand exWorld ''use keycard''
                     (fst (executeCommand exWorld ''use keycard'' exCarrying))))) = 0 \<and>
   victories (fst (snd (executeCommand exWorld ''constructor'' exCarrying))) = 0"
proof -
  let ?s1 = "fst (executeCommand exWorld ''use keycard'' exCarrying)"
  let ?s2 = "stateOf exCarrying (afterRules exWorld ''use keycard'' exCarrying)"
  let ?o2 = "narrationOf (afterRules exWorld ''use keycard'' exCarrying)"
  have r: "afterRules exWorld ''use keycard'' exCarrying = Inr (?s2, ?o2)"
    by code_simp
  have a: "\<not> flagTruthy ?s2 ''gameCompleted''"
    by code_simp
  have b: "objectivesComplete exWorld ?s2"
    by code_simp
  have x: "afterRules exWorld ''constructor'' exCarrying = Inl TypeError"
    by code_simp
  note A = victory_narrated_once[of exWorld exCarrying, THEN conjunct1, rule_format,
      of "''use keycard''", THEN conjunct2, rule_format, OF r]
  from A a b
  have 1: "victories (fst (snd (executeCommand exWorld ''use keycard'' exCarrying))) = 1"
    and 2: "flagTruthy ?s1 ''gameCompleted''"
    by simp_all
  have "snd (runCommands exWorld [''use keycard''] ?s1) =
          [snd (executeCommand exWorld ''use keycard'' ?s1)]"
    by (simp add: Let_def split_beta)
  with victory_narrated_once[of exWorld ?s1, THEN conjunct2, THEN conjunct1, rule_format,
      OF 2, of "[''use keycard'']", THEN conjunct2]
  have 3: "victories (fst (snd (executeCommand exWorld ''use keycard'' ?s1))) = 0"
    by simp
  note B = victory_narrated_once[of exWorld exCarrying, THEN conjunct1, rule_format,
      of "''constructor''", THEN conjunct1, rule_format, OF x, THEN conjunct1]
  from 1 2 3 B show ?thesis by blast
qed

text \<open>An objective whose flag is named \<open>constructor\<close> is complete from the start, the
  flag store inheriting a member of that name: the first command narrates victory.\<close>

lemma inherited_objective_flag:
  "map (\<lambda>out. victories (fst out))
     (snd (runCommands exInherited [''look'', ''look''] (initialState exInherited))) = [1, 0]"
  by code_simp

text \<open>A command that throws skips the completion check: in that world the line
  "constructor" throws and narrates no victory, which the next line does.\<close>

lemma throwing_command_skips_check:
  "map (\<lambda>out. (victories (fst out), snd out))
     (snd (runCommands exInherited [''constructor'', ''look''] (initialState exInherited)))
   = [(0, Some TypeError), (1, None)]"
  by code_simp

section \<open>The inventory and the location records agree\<close>

subsection \<open>State operations\<close>

lemma consistent_untouched:
  assumes "consistent s"
    and "inventory s' = inventory s" and "itemLocations s' = itemLocations s"
    and "currentRoomId s' = currentRoomId s"
  shows "consistent s'"
  using assms by (simp add: consistent_def carriedIff_def getItemLocation_def)

lemma consistent_frame [simp]:
  "consistent (setFlag f v s) = consistent s"
  "consistent (markRoomVisited r s) = consistent s"
  "consistent (setDialogueState k n s) = consistent s"
  "consistent (addToHistory t s) = consistent s"
  by (simp_all add: consistent_def carriedIff_def getItemLocation_def setFlag_def
      markRoomVisited_def setDialogueState_def addToHistory_def Let_def)

lemma currentRoomId_ops [simp]:
  "currentRoomId (setFlag f v s) = currentRoomId s"
  "currentRoomId (addItem g s) = currentRoomId s"
  "currentRoomId (snd (removeItem g s)) = currentRoomId s"
  "currentRoomId (setItemLocation g l s) = currentRoomId s"
  "currentRoomId (markRoomVisited r s) = currentRoomId s"
  "currentRoomId (setDialogueState k n s) = currentRoomId s"
  "currentRoomId (addToHistory t s) = currentRoomId s"
  "currentRoomId (setCurrentRoom r s) = r"
  by (simp_all add: setFlag_def addItem_def removeItem_def setItemLocation_def
      markRoomVisited_def setDialogueState_def addToHistory_def setCurrentRoom_def Let_def)

lemma consistent_addItem:
  assumes "consistent s" and "currentRoomId s \<noteq> ''inventory''"
  shows "consistent (addItem g s)"
  using assms
  by (auto simp: consistent_def carriedIff_def getItemLocation_def addItem_def
      update_conv' distinct_update simp del: map_of_eq_Some_iff)

lemma consistent_relocate:
  assumes "consistent s" and "l \<noteq> ''inventory''"
  shows "consistent (setItemLocation i l (snd (removeItem i s)))"
  using assms
  by (auto simp: consistent_def carriedIff_def getItemLocation_def setItemLocation_def
      removeItem_def update_conv' distinct_update simp del: map_of_eq_Some_iff
      split: if_splits)

lemma consistent_setCurrentRoom:
  assumes "consistent s" and "r \<noteq> ''inventory''"
  shows "consistent (setCurrentRoom r s)"
  using assms
  by (simp add: consistent_def carriedIff_def getItemLocation_def setCurrentRoom_def)

subsection \<open>Effects\<close>

lemma consistent_processEvent:
  assumes "consistent s" and "currentRoomId s \<noteq> ''inventory''"
  shows "consistent (fst (processEvent ev s))"
  using assms
  by (simp add: processEvent_def Let_def consistent_addItem split: option.splits)

lemma consistent_executeUseAction:
  assumes "consistent s" and "currentRoomId s \<noteq> ''inventory''"
  shows "consistent (fst (executeUseAction c it a s))"
  using assms
  by (simp add: executeUseAction_def Let_def consistent_addItem consistent_relocate
      split: option.splits)

lemma consistent_displayDialogueNode:
  assumes "consistent s" and "currentRoomId s \<noteq> ''inventory''"
  shows "consistent (fst (displayDialogueNode c ch nd s))"
  using assms
  by (simp add: displayDialogueNode_def Let_def consistent_addItem split: option.splits)

lemma consistent_runDialogue:
  assumes "consistent s" and "currentRoomId s \<noteq> ''inventory''"
  shows "consistent (fst (runDialogue c ch s))"
  using assms
  by (simp add: runDialogue_def Let_def consistent_displayDialogueNode
      split: list.splits option.splits)

subsection \<open>Where resolved entities come from\<close>

lemma findByName_member:
  "findByName tbl n ids = Some e \<Longrightarrow> \<exists>i\<in>set ids. tbl i = Some e"
  by (induction ids) (auto split: option.splits if_splits)

lemma findItemInInventory_carried:
  assumes "findItemInInventory c s n = Some it"
  shows "ident it \<in> set (inventory s)"
proof -
  from assms obtain i where "i \<in> set (inventory s)" "itemsById c i = Some it"
    by (auto simp: findItemInInventory_def getInventory_def dest: findByName_member)
  then show ?thesis by (auto simp: itemsById_def dest: byId_key)
qed

lemma findItemInRoom_located:
  assumes "findItemInRoom c s n = Some it" and "distinct (map fst (itemLocations s))"
  shows "getItemLocation s (ident it) = Some (currentRoomId s)"
proof -
  from assms(1) obtain i where i: "i \<in> set (state_getItemsInRoom s (currentRoomId s))"
    "itemsById c i = Some it"
    by (auto simp: findItemInRoom_def getCurrentRoomId_def dest: findByName_member)
  then have "ident it = i" by (auto simp: itemsById_def dest: byId_key)
  moreover from i(1) have "(i, currentRoomId s) \<in> set (itemLocations s)"
    by (auto simp: state_getItemsInRoom_def)
  ultimately show ?thesis
    using assms(2) by (simp add: getItemLocation_def)
qed

lemma byId_None:
  "k \<notin> key ` set xs \<Longrightarrow> byId key xs k = None"
proof -
  have "k \<notin> key ` set xs \<Longrightarrow> fold (\<lambda>x m. m(key x \<mapsto> x)) xs m0 k = m0 k" for m0
    by (induction xs arbitrary: m0) auto
  then show "k \<notin> key ` set xs \<Longrightarrow> byId key xs k = None"
    by (simp add: byId_def)
qed

subsection \<open>Handlers\<close>

lemma consistent_handleGo:
  assumes "consistent s" and "roomsById c ''inventory'' = None"
  shows "consistent (stateOf s (handleGo c cmd s))"
proof -
  have "consistent (markRoomVisited t (setCurrentRoom t s))" if "roomsById c t \<noteq> None" for t
    using that assms by (auto intro: consistent_setCurrentRoom)
  then show ?thesis
    using assms(1)
    by (auto simp: handleGo_def Let_def
        split: option.splits sum.splits jsword.splits lookup.splits)
qed

lemma consistent_handleTake:
  assumes "consistent s"
  shows "consistent (stateOf s (handleTake c cmd s))"
proof (cases "lowerOf (noun cmd)")
  case (Inl e)
  then show ?thesis using assms by (simp add: handleTake_def)
next
  case (Inr n)
  show ?thesis
  proof (cases "findItemInRoom c s n")
    case None
    then show ?thesis using assms Inr by (simp add: handleTake_def split: option.splits)
  next
    case (Some it)
    have loc: "getItemLocation s (ident it) = Some (currentRoomId s)"
      using findItemInRoom_located[OF Some] assms by (simp add: consistent_def)
    have cur: "currentRoomId s \<noteq> ''inventory''"
    proof
      assume e: "currentRoomId s = ''inventory''"
      from loc e have "getItemLocation s (ident it) = Some ''inventory''" by simp
      moreover from assms have "carriedIff s" by (simp add: consistent_def)
      ultimately have "ident it \<in> set (inventory s)"
        by (simp add: carriedIff_def)
      then have "inventory s \<noteq> []" by auto
      with assms e show False by (simp add: consistent_def)
    qed
    have a: "consistent (addItem (ident it) s)"
      using assms cur by (rule consistent_addItem)
    have pe: "consistent (fst (processEvent ev (addItem (ident it) s)))" for ev
      using a cur by (simp add: consistent_processEvent)
    have h: "stateOf s (handleTake c cmd s) =
        (if \<not> given (noun cmd) \<or> takeable it = Some False then s
         else case onTake it of
                None \<Rightarrow> addItem (ident it) s
              | Some ev \<Rightarrow> fst (processEvent ev (addItem (ident it) s)))"
      using Inr Some by (simp add: handleTake_def Let_def split_beta split: option.splits)
    show ?thesis
      unfolding h using assms a pe by (simp split: option.splits)
  qed
qed

lemma carrying_not_in_inventory_room:
  assumes "consistent s" and "i \<in> set (inventory s)"
  shows "currentRoomId s \<noteq> ''inventory''"
  using assms by (auto simp: consistent_def)

lemma consistent_handleDrop:
  assumes "consistent s"
  shows "consistent (stateOf s (handleDrop c cmd s))"
proof (cases "lowerOf (noun cmd)")
  case (Inl e)
  then show ?thesis using assms by (simp add: handleDrop_def)
next
  case (Inr n)
  show ?thesis
  proof (cases "findItemInInventory c s n")
    case None
    then show ?thesis using assms Inr by (simp add: handleDrop_def)
  next
    case (Some it)
    have "currentRoomId s \<noteq> ''inventory''"
      using carrying_not_in_inventory_room[OF assms findItemInInventory_carried[OF Some]] .
    then have "consistent (setItemLocation (ident it) (currentRoomId s)
                             (snd (removeItem (ident it) s)))"
      using assms by (simp add: consistent_relocate)
    with assms Some Inr show ?thesis
      by (simp add: handleDrop_def Let_def getCurrentRoomId_def)
  qed
qed

lemma consistent_handleUse:
  assumes "consistent s"
  shows "consistent (stateOf s (handleUse c cmd s))"
proof (cases "lowerOf (noun cmd)")
  case (Inl e)
  then show ?thesis using assms by (simp add: handleUse_def)
next
  case (Inr n)
  show ?thesis
  proof (cases "findItemInInventory c s n")
    case None
    then show ?thesis using assms Inr by (simp add: handleUse_def split: option.splits)
  next
    case (Some it)
    have "currentRoomId s \<noteq> ''inventory''"
      using carrying_not_in_inventory_room[OF assms findItemInInventory_carried[OF Some]] .
    then have "consistent (fst (executeUseAction c it a s))" for a
      using assms by (simp add: consistent_executeUseAction)
    with assms Some Inr show ?thesis
      by (simp add: handleUse_def Let_def split: option.splits list.splits)
  qed
qed

lemma consistent_handleTalk:
  assumes "consistent s" and "roomsById c ''inventory'' = None"
  shows "consistent (stateOf s (handleTalk c cmd s))"
proof (cases "lowerOf (noun cmd)")
  case (Inl e)
  then show ?thesis using assms by (simp add: handleTalk_def split: option.splits)
next
  case (Inr n)
  show ?thesis
  proof (cases "findCharacterInRoom c s n")
    case None
    then show ?thesis using assms Inr by (simp add: handleTalk_def split: option.splits)
  next
    case (Some ch)
    then have "getCurrentRoom c s \<noteq> None"
      by (auto simp: findCharacterInRoom_def split: option.splits)
    with assms(2) have "currentRoomId s \<noteq> ''inventory''"
      by (auto simp: getCurrentRoom_def getCurrentRoomId_def)
    then have "consistent (fst (runDialogue c ch s))"
      using assms(1) by (simp add: consistent_runDialogue)
    with assms Some Inr show ?thesis
      by (simp add: handleTalk_def split: option.splits)
  qed
qed

lemma consistent_readers:
  assumes "consistent s"
  shows "consistent (stateOf s (handleExamine c cmd s))"
    and "consistent (stateOf s (handleLook c cmd s))"
    and "consistent (stateOf s (handleInventory c cmd s))"
    and "consistent (stateOf s (handleHelp c cmd s))"
    and "consistent (stateOf s (handleQuit c cmd s))"
  using assms
  by (simp_all add: handleExamine_def handleLook_def handleInventory_def handleHelp_def
      handleQuit_def Let_def split: option.splits sum.splits jsword.splits)

lemma consistent_execute:
  assumes "consistent s" and "roomsById c ''inventory'' = None"
  shows "consistent (stateOf s (execute c cmd s))"
proof -
  have "consistent (stateOf s (runHandler h c cmd s))" for h
    using consistent_readers[OF assms(1)] consistent_handleGo[OF assms]
      consistent_handleTake[OF assms(1)] consistent_handleDrop[OF assms(1)]
      consistent_handleUse[OF assms(1)] consistent_handleTalk[OF assms]
    by (cases h) simp_all
  then show ?thesis
    using assms(1) consistent_handleGo[OF assms]
    by (simp add: execute_def split: jsword.splits lookup.splits)
qed

lemma consistent_checkGameCompletion:
  "consistent s \<Longrightarrow> consistent (fst (checkGameCompletion c s))"
  by (simp add: checkGameCompletion_def split: option.splits)

lemma consistent_executeCommand:
  assumes "consistent s" and "roomsById c ''inventory'' = None"
  shows "consistent (fst (executeCommand c t s))"
proof -
  have a: "consistent (addToHistory t s)" using assms(1) by simp
  have e: "consistent (stateOf (addToHistory t s)
                         (execute c (parse (c_commands c) t) (addToHistory t s)))"
    by (rule consistent_execute[OF a assms(2)])
  show ?thesis
  proof (cases "execute c (parse (c_commands c) t) (addToHistory t s)")
    case (Inl err)
    then show ?thesis using a by (simp add: executeCommand_def Let_def)
  next
    case (Inr p)
    with e have "consistent (fst p)" by simp
    then have "consistent (fst (checkGameCompletion c (fst p)))"
      by (rule consistent_checkGameCompletion)
    with Inr show ?thesis by (simp add: executeCommand_def Let_def split_beta)
  qed
qed

lemma consistent_runCommands:
  assumes "roomsById c ''inventory'' = None"
  shows "consistent s \<Longrightarrow> consistent (fst (runCommands c ts s))"
proof (induction ts arbitrary: s)
  case Nil
  then show ?case by simp
next
  case (Cons t ts)
  from Cons.IH[OF consistent_executeCommand[OF Cons.prems assms]] show ?case
    by (simp add: Let_def split_beta)
qed

subsection \<open>The starting state\<close>

lemma fresh_setItemLocation:
  "fresh s \<Longrightarrow> l \<noteq> ''inventory'' \<Longrightarrow> fresh (setItemLocation i l s)"
  by (auto simp: fresh_def setItemLocation_def getItemLocation_def update_conv'
      distinct_update simp del: map_of_eq_Some_iff)

lemma fresh_room_items:
  "fresh s \<Longrightarrow> l \<noteq> ''inventory'' \<Longrightarrow> fresh (fold (\<lambda>itemId. setItemLocation itemId l) is s)"
  by (induction "is" arbitrary: s) (simp_all add: fresh_setItemLocation)

lemma fresh_initializeItemLocations:
  "fresh s \<Longrightarrow> ''inventory'' \<notin> ident ` set rs \<Longrightarrow> fresh (initializeItemLocations rs s)"
  unfolding initializeItemLocations_def
proof (induction rs arbitrary: s)
  case Nil
  then show ?case by simp
next
  case (Cons r rs)
  have "fresh (case items r of None \<Rightarrow> s
               | Some is \<Rightarrow> fold (\<lambda>itemId. setItemLocation itemId (ident r)) is s)"
    using Cons.prems by (auto split: option.splits intro: fresh_room_items)
  from Cons.IH[OF this] Cons.prems(2) show ?case by simp
qed

lemma fresh_initialState:
  "''inventory'' \<notin> ident ` set (c_rooms c) \<Longrightarrow> fresh (initialState c)"
  unfolding initialState_def
  by (rule fresh_initializeItemLocations)
     (simp_all add: fresh_def newGameState_def getItemLocation_def)

lemma fresh_consistent: "fresh s \<Longrightarrow> consistent s"
  by (simp add: fresh_def consistent_def carriedIff_def)

lemma removeItem_alone:
  assumes "carriedIff s" and "distinct (inventory s)" and "i \<in> set (inventory s)"
  shows "\<not> carriedIff (snd (removeItem i s))"
proof -
  have "getItemLocation (snd (removeItem i s)) i = Some ''inventory''"
    using assms(1,3) by (simp add: carriedIff_def removeItem_def getItemLocation_def)
  moreover have "i \<notin> set (inventory (snd (removeItem i s)))"
    using assms(2,3) by (simp add: removeItem_def)
  ultimately show ?thesis unfolding carriedIff_def by blast
qed

text \<open>
  Claim C9, as amended. In a content none of whose rooms has the identifier "inventory",
  after initialisation and after every command of any session, an item identifier is in
  the inventory exactly when its location record is "inventory". \<open>removeItem\<close> alone
  breaks this for the item it removes; the handlers that call it relocate the item in the
  same step.
\<close>

theorem carried_iff_location_record:
  assumes "''inventory'' \<notin> ident ` set (c_rooms c)"
  shows "(\<forall>ts. carriedIff (fst (runCommands c ts (initialState c)))) \<and>
         (\<forall>s i. carriedIff s \<and> distinct (inventory s) \<and> i \<in> set (inventory s) \<longrightarrow>
                \<not> carriedIff (snd (removeItem i s)))"
proof -
  have n: "roomsById c ''inventory'' = None"
    using assms by (simp add: roomsById_def byId_None)
  have "consistent (initialState c)"
    using assms by (simp add: fresh_initialState fresh_consistent)
  then have "consistent (fst (runCommands c ts (initialState c)))" for ts
    by (rule consistent_runCommands[OF n])
  then have "\<forall>ts. carriedIff (fst (runCommands c ts (initialState c)))"
    by (simp add: consistent_def)
  then show ?thesis using removeItem_alone by blast
qed

text \<open>
  The claim as stated fails for a content with a room whose identifier is "inventory":
  the sword that this room holds has the location record "inventory" from the start, and
  again after it is taken and dropped there, while nothing is carried.
\<close>

theorem room_called_inventory_counterexample:
  "inventory (initialState exPocket) = [] \<and>
   getItemLocation (initialState exPocket) ''sword'' = Some ''inventory'' \<and>
   inventory (fst (runCommands exPocket [''take sword'', ''drop sword''] (initialState exPocket)))
     = [] \<and>
   getItemLocation
     (fst (runCommands exPocket [''take sword'', ''drop sword''] (initialState exPocket)))
     ''sword'' = Some ''inventory''"
  by code_simp

theorem carried_iff_location_record_witness:
  "getItemLocation
     (fst (runCommands exWorld [''take keycard'', ''take sword'', ''drop keycard'']
             (initialState exWorld))) ''sword'' = Some ''inventory'' \<and>
   getItemLocation
     (fst (runCommands exWorld [''take keycard'', ''take sword'', ''drop keycard'']
             (initialState exWorld))) ''keycard'' \<noteq> Some ''inventory''"
proof -
  let ?s = "fst (runCommands exWorld [''take keycard'', ''take sword'', ''drop keycard'']
                   (initialState exWorld))"
  have h: "''inventory'' \<notin> ident ` set (c_rooms exWorld)" by code_simp
  have i: "''sword'' \<in> set (inventory ?s)" "''keycard'' \<notin> set (inventory ?s)" by code_simp+
  from carried_iff_location_record[OF h, THEN conjunct1, rule_format,
      of "[''take keycard'', ''take sword'', ''drop keycard'']"]
  have "carriedIff ?s" .
  with i show ?thesis unfolding carriedIff_def by blast
qed

end
